theory Spec2Isabelle
  imports Complex_Main
begin

section \<open>The graphics context as the wrappers see it\<close>

text \<open>
  The wrappers of igloo-ts (Buffer, Texture, Framebuffer, Program, Igloo) own no
  algorithm of their own: what they do is the sequence of calls they make on a
  \<^verbatim>\<open>WebGLRenderingContext\<close> and the few fields they cache.  The context is
  therefore modelled by
  \<^item> a record \<open>gl_context\<close> of what the wrappers read from it: the enumeration
    constants (\<^verbatim>\<open>gl.ARRAY_BUFFER\<close>, ...) and the answers it gives to queries
    (compile and link status, info logs, uniform locations, attribute indices);
  \<^item> a record \<open>gl_state\<close> holding the log of the calls made so far, in order,
    and the number of objects created so far (a \<^verbatim>\<open>create*\<close> call on a live
    context returns a new, non-null object, here numbered from 0).
  JavaScript numbers that are only handed through to the context are \<open>real\<close>;
  no arithmetic is done on them.  What the context does with a call, its rejecting an
  argument included, is not modelled: the log records the call as the wrapper made it.
\<close>

type_synonym glenum = int
type_synonym handle = nat

datatype typed_kind =
    Int8Array | Uint8Array | Uint8ClampedArray | Int16Array | Uint16Array
  | Int32Array | Uint32Array | Float32Array | Float64Array

text \<open>
  An \<^verbatim>\<open>ArrayBufferView\<close>: a typed array, given by its kind and the numbers it
  was built from (the rounding of an element to the storage type is not modelled), or a
  \<^verbatim>\<open>DataView\<close>, given by its byte length.
\<close>

datatype view = TypedArray typed_kind "real list" | DataView nat

fun BYTES_PER_ELEMENT :: "typed_kind \<Rightarrow> nat" where
  "BYTES_PER_ELEMENT Int8Array = 1"
| "BYTES_PER_ELEMENT Uint8Array = 1"
| "BYTES_PER_ELEMENT Uint8ClampedArray = 1"
| "BYTES_PER_ELEMENT Int16Array = 2"
| "BYTES_PER_ELEMENT Uint16Array = 2"
| "BYTES_PER_ELEMENT Int32Array = 4"
| "BYTES_PER_ELEMENT Uint32Array = 4"
| "BYTES_PER_ELEMENT Float32Array = 4"
| "BYTES_PER_ELEMENT Float64Array = 8"

fun view_byteLength :: "view \<Rightarrow> nat" where
  "view_byteLength (TypedArray k xs) = BYTES_PER_ELEMENT k * length xs"
| "view_byteLength (DataView n) = n"

text \<open>
  The declared argument type of \<^verbatim>\<open>Buffer.update\<close> is
  \<^verbatim>\<open>ArrayBuffer | ArrayBufferView\<close>: both carry a \<^verbatim>\<open>byteLength\<close>.  At run time the
  method also accepts a plain \<^verbatim>\<open>Array\<close>, which it converts first.
\<close>

datatype buffer_source = ArrayBuffer nat | ArrayBufferView view

datatype update_data = PlainArray "real list" | Source buffer_source

fun byteLength :: "buffer_source \<Rightarrow> nat" where
  "byteLength (ArrayBuffer n) = n"
| "byteLength (ArrayBufferView v) = view_byteLength v"

text \<open>
  The arguments of \<^verbatim>\<open>Texture.set\<close> and \<^verbatim>\<open>Texture.subset\<close>: a plain array, a
  buffer view, or an image-like object (\<^verbatim>\<open>ImageData\<close>, with its own width and height).
\<close>

datatype tex_source = SourceArray "real list" | SourceView view | ImageData int int

text \<open>
  What a caller can hand to \<^verbatim>\<open>Program.uniform\<close>.  The declared type is
  \<^verbatim>\<open>number | Array<number> | boolean | ArrayBufferView | Float32Array\<close>; strings and
  plain objects stand for the values outside it that reach the method from untyped code.
\<close>

datatype uniform_value =
    Number real
  | Boolean bool
  | NumberArray "real list"
  | BufferView view
  | String string
  | PlainObject

datatype matrix_value = MatrixArray "real list" | MatrixView view

text \<open>
  What \<^verbatim>\<open>this.#vars[name]\<close> reads back: \<open>Undefined\<close> for a name the object has
  no property for, \<open>Null\<close> when the context answered \<^verbatim>\<open>null\<close>
  (\<^verbatim>\<open>getUniformLocation\<close> does so for a name that is no active uniform of the
  program), a uniform location object, an attribute index (a number; -1 when the
  name is no active attribute), or a member the object inherits from
  \<^verbatim>\<open>Object.prototype\<close>, given by its name (a function such as \<^verbatim>\<open>toString\<close>, or the
  prototype object itself under \<^verbatim>\<open>__proto__\<close>).
\<close>

datatype location = Undefined | Null | UniformLocation nat | AttribIndex int | Inherited string

datatype gl_call =
    CreateBuffer
  | BindBuffer glenum handle
  | BufferData glenum buffer_source glenum
  | BufferSubData glenum int buffer_source
  | CreateTexture
  | ActiveTexture glenum
  | BindTexture glenum handle
  | TexParameteri glenum glenum glenum
  | TexImage2D_pixels glenum int glenum "int option" "int option" int glenum glenum "tex_source option"
  | TexImage2D_image glenum int glenum glenum glenum tex_source
  | TexSubImage2D_pixels glenum int int int "int option" "int option" glenum glenum tex_source
  | TexSubImage2D_image glenum int int int glenum glenum tex_source
  | CreateFramebuffer
  | BindFramebuffer glenum "handle option"
  | FramebufferTexture2D glenum glenum glenum handle int
  | CreateRenderbuffer
  | RenderbufferStorage glenum glenum int int
  | FramebufferRenderbuffer glenum glenum glenum "handle option"
  | CreateProgram
  | CreateShader glenum
  | ShaderSource handle string
  | CompileShader handle
  | GetShaderParameter handle glenum
  | GetShaderInfoLog handle
  | AttachShader handle handle
  | LinkProgram handle
  | GetProgramParameter handle glenum
  | GetProgramInfoLog handle
  | GetUniformLocation handle string
  | GetAttribLocation handle string
  | Uniform1f location uniform_value
  | Uniform1i location uniform_value
  | Uniform1fv location uniform_value
  | Uniform2fv location uniform_value
  | Uniform3fv location uniform_value
  | Uniform4fv location uniform_value
  | Uniform1iv location uniform_value
  | Uniform2iv location uniform_value
  | Uniform3iv location uniform_value
  | Uniform4iv location uniform_value
  | UniformMatrix2fv location bool matrix_value
  | UniformMatrix3fv location bool matrix_value
  | UniformMatrix4fv location bool matrix_value
  | EnableVertexAttribArray location
  | VertexAttribPointer location "int option" glenum bool int int

record gl_context =
  ARRAY_BUFFER :: glenum
  DYNAMIC_DRAW :: glenum
  TEXTURE_2D :: glenum
  TEXTURE0 :: glenum
  UNSIGNED_BYTE :: glenum
  RGBA :: glenum
  CLAMP_TO_EDGE :: glenum
  LINEAR :: glenum
  TEXTURE_WRAP_S :: glenum
  TEXTURE_WRAP_T :: glenum
  TEXTURE_MIN_FILTER :: glenum
  TEXTURE_MAG_FILTER :: glenum
  FRAMEBUFFER :: glenum
  RENDERBUFFER :: glenum
  COLOR_ATTACHMENT0 :: glenum
  DEPTH_ATTACHMENT :: glenum
  DEPTH_COMPONENT16 :: glenum
  VERTEX_SHADER :: glenum
  FRAGMENT_SHADER :: glenum
  COMPILE_STATUS :: glenum
  LINK_STATUS :: glenum
  FLOAT :: glenum
  compileStatus :: "glenum \<Rightarrow> string \<Rightarrow> bool"
  shaderInfoLog :: "glenum \<Rightarrow> string \<Rightarrow> string"
  linkStatus :: "string \<Rightarrow> string \<Rightarrow> bool"
  programInfoLog :: "string \<Rightarrow> string \<Rightarrow> string"
  uniformLocation :: "handle \<Rightarrow> string \<Rightarrow> nat option"
  attribLocation :: "handle \<Rightarrow> string \<Rightarrow> int"

record gl_state =
  calls :: "gl_call list"
  created :: nat

definition emit :: "gl_call \<Rightarrow> gl_state \<Rightarrow> gl_state" where
  "emit c s = s\<lparr>calls := calls s @ [c]\<rparr>"

definition create :: "gl_call \<Rightarrow> gl_state \<Rightarrow> handle \<times> gl_state" where
  "create c s = (created s, s\<lparr>calls := calls s @ [c], created := Suc (created s)\<rparr>)"

text \<open>
  The errors the wrappers raise.  The source throws plain \<^verbatim>\<open>Error\<close> objects; the
  constructors name the place of the \<^verbatim>\<open>throw\<close> and carry its message.  The
  message of \<open>InvalidUniformValue\<close> is \<^verbatim>\<open>"Invalid uniform value: " + value\<close>: the
  constructor carries the rejected value, which that text describes.
  \<open>TypeError\<close> is the runtime's own error for calling a property of the context
  that is not a function; it carries the name of the property (empty where the name
  has no finite rendering in the model).
\<close>

datatype error =
    ShaderCompileError string
  | ProgramLinkError string
  | InvalidUniformValue uniform_value
  | MissingDimensions string
  | ContextCreationError string
  | TypeError string

section \<open>Buffer\<close>

record Buffer =
  target :: glenum
  buffer :: handle
  size' :: int

definition Buffer_constructor :: "gl_context \<Rightarrow> glenum option \<Rightarrow> gl_state \<Rightarrow> Buffer \<times> gl_state" where
  "Buffer_constructor gl tgt s =
     (let (b, s1) = create CreateBuffer s
      in (\<lparr>target = (case tgt of None \<Rightarrow> ARRAY_BUFFER gl | Some t \<Rightarrow> t), buffer = b, size' = - 1\<rparr>, s1))"

definition Buffer_bind :: "Buffer \<Rightarrow> gl_state \<Rightarrow> Buffer \<times> gl_state" where
  "Buffer_bind this s = (this, emit (BindBuffer (target this) (buffer this)) s)"

text \<open>\<^verbatim>\<open>if (data instanceof Array) data = new Float32Array(data)\<close>\<close>

fun as_source :: "update_data \<Rightarrow> buffer_source" where
  "as_source (PlainArray xs) = ArrayBufferView (TypedArray Float32Array xs)"
| "as_source (Source d) = d"

definition Buffer_update :: "gl_context \<Rightarrow> update_data \<Rightarrow> glenum option \<Rightarrow> Buffer \<Rightarrow> gl_state \<Rightarrow> Buffer \<times> gl_state" where
  "Buffer_update gl dat usage this s =
     (let d = as_source dat;
          u = (case usage of None \<Rightarrow> DYNAMIC_DRAW gl | Some x \<Rightarrow> x);
          (this1, s1) = Buffer_bind this s
      in if size' this1 \<noteq> int (byteLength d)
         then (this1\<lparr>size' := int (byteLength d)\<rparr>, emit (BufferData (target this1) d u) s1)
         else (this1, emit (BufferSubData (target this1) 0 d) s1))"

text \<open>A caller making several \<^verbatim>\<open>update\<close> calls in a row on the same buffer.\<close>

fun update_all :: "gl_context \<Rightarrow> (update_data \<times> glenum option) list \<Rightarrow> Buffer \<Rightarrow> gl_state \<Rightarrow> Buffer \<times> gl_state" where
  "update_all gl [] this s = (this, s)"
| "update_all gl ((dat, usage) # rest) this s =
     (let (this1, s1) = Buffer_update gl dat usage this s in update_all gl rest this1 s1)"

text \<open>The call-count probes: full reallocations and in-place updates in a log.\<close>

definition is_bufferData :: "gl_call \<Rightarrow> bool" where
  "is_bufferData c = (case c of BufferData t d u \<Rightarrow> True | _ \<Rightarrow> False)"

definition is_bufferSubData :: "gl_call \<Rightarrow> bool" where
  "is_bufferSubData c = (case c of BufferSubData t off d \<Rightarrow> True | _ \<Rightarrow> False)"

definition reallocations :: "gl_state \<Rightarrow> nat" where
  "reallocations s = length (filter is_bufferData (calls s))"

definition partial_updates :: "gl_state \<Rightarrow> nat" where
  "partial_updates s = length (filter is_bufferSubData (calls s))"

text \<open>\<^verbatim>\<open>data.byteLength\<close> as \<^verbatim>\<open>update\<close> reads it, after the conversion of a plain array.\<close>

definition data_size :: "update_data \<Rightarrow> int" where
  "data_size dat = int (byteLength (as_source dat))"

section \<open>Texture\<close>

record Texture =
  texture :: handle
  format :: glenum

definition Texture_constructor ::
  "gl_context \<Rightarrow> glenum option \<Rightarrow> glenum option \<Rightarrow> glenum option \<Rightarrow> gl_state \<Rightarrow> Texture \<times> gl_state" where
  "Texture_constructor gl fmt wrap filter_mode s =
     (let (t, s1) = create CreateTexture s;
          s2 = emit (BindTexture (TEXTURE_2D gl) t) s1;
          w = (case wrap of None \<Rightarrow> CLAMP_TO_EDGE gl | Some x \<Rightarrow> x);
          f = (case filter_mode of None \<Rightarrow> LINEAR gl | Some x \<Rightarrow> x);
          s3 = emit (TexParameteri (TEXTURE_2D gl) (TEXTURE_WRAP_S gl) w) s2;
          s4 = emit (TexParameteri (TEXTURE_2D gl) (TEXTURE_WRAP_T gl) w) s3;
          s5 = emit (TexParameteri (TEXTURE_2D gl) (TEXTURE_MIN_FILTER gl) f) s4;
          s6 = emit (TexParameteri (TEXTURE_2D gl) (TEXTURE_MAG_FILTER gl) f) s5
      in (\<lparr>texture = t, format = (case fmt of None \<Rightarrow> RGBA gl | Some x \<Rightarrow> x)\<rparr>, s6))"

definition Texture_bind :: "gl_context \<Rightarrow> int option \<Rightarrow> Texture \<Rightarrow> gl_state \<Rightarrow> Texture \<times> gl_state" where
  "Texture_bind gl unit this s =
     (let s1 = (case unit of None \<Rightarrow> s | Some u \<Rightarrow> emit (ActiveTexture (TEXTURE0 gl + u)) s)
      in (this, emit (BindTexture (TEXTURE_2D gl) (texture this)) s1))"

definition Texture_blank :: "gl_context \<Rightarrow> int \<Rightarrow> int \<Rightarrow> Texture \<Rightarrow> gl_state \<Rightarrow> Texture \<times> gl_state" where
  "Texture_blank gl width height this s =
     (let (this1, s1) = Texture_bind gl None this s
      in (this1, emit (TexImage2D_pixels (TEXTURE_2D gl) 0 (format this1) (Some width) (Some height) 0
                         (format this1) (UNSIGNED_BYTE gl) None) s1))"

text \<open>\<^verbatim>\<open>source instanceof Array\<close>, \<^verbatim>\<open>ArrayBuffer.isView(source)\<close> and
  \<^verbatim>\<open>source instanceof Uint8Array\<close> (a \<^verbatim>\<open>Uint8ClampedArray\<close> is no instance of
  \<^verbatim>\<open>Uint8Array\<close>).\<close>

fun instanceof_Array :: "tex_source \<Rightarrow> bool" where
  "instanceof_Array (SourceArray xs) = True"
| "instanceof_Array (SourceView v) = False"
| "instanceof_Array (ImageData w h) = False"

fun isArrayBufferView :: "tex_source \<Rightarrow> bool" where
  "isArrayBufferView (SourceArray xs) = False"
| "isArrayBufferView (SourceView v) = True"
| "isArrayBufferView (ImageData w h) = False"

fun instanceof_Uint8Array :: "tex_source \<Rightarrow> bool" where
  "instanceof_Uint8Array (SourceView (TypedArray Uint8Array xs)) = True"
| "instanceof_Uint8Array src = False"

text \<open>\<^verbatim>\<open>new Uint8Array(source)\<close>, applied by the methods to a plain array only.\<close>

fun new_Uint8Array :: "tex_source \<Rightarrow> tex_source" where
  "new_Uint8Array (SourceArray xs) = SourceView (TypedArray Uint8Array xs)"
| "new_Uint8Array src = src"

text \<open>
  \<^verbatim>\<open>Texture.set\<close> of \<^verbatim>\<open>src/Texture.ts\<close>.  In the first branch the converted array
  is assigned to the local variable \<^verbatim>\<open>source\<close> and nothing else is done with it.
\<close>

definition Texture_set ::
  "gl_context \<Rightarrow> tex_source \<Rightarrow> int option \<Rightarrow> int option \<Rightarrow> Texture \<Rightarrow> gl_state \<Rightarrow> Texture \<times> gl_state" where
  "Texture_set gl source width height this s =
     (let (this1, s1) = Texture_bind gl None this s
      in if instanceof_Array source then
           (let source1 = new_Uint8Array source in (this1, s1))
         else if isArrayBufferView source then
           (this1, emit (TexImage2D_pixels (TEXTURE_2D gl) 0 (format this1) width height 0
                           (format this1) (UNSIGNED_BYTE gl) (Some source)) s1)
         else
           (this1, emit (TexImage2D_image (TEXTURE_2D gl) 0 (format this1) (format this1)
                           (UNSIGNED_BYTE gl) source) s1))"

text \<open>
  The same method in the single-file copy of the library (and its compiled
  \<^verbatim>\<open>lib/igloo.js\<close>), where the view test is
  \<^verbatim>\<open>typeof source === "ArrayBufferView"\<close>: \<^verbatim>\<open>typeof\<close> never yields that string.
\<close>

definition Texture_set_single_file ::
  "gl_context \<Rightarrow> tex_source \<Rightarrow> int option \<Rightarrow> int option \<Rightarrow> Texture \<Rightarrow> gl_state \<Rightarrow> Texture \<times> gl_state" where
  "Texture_set_single_file gl source width height this s =
     (let (this1, s1) = Texture_bind gl None this s
      in if instanceof_Array source then
           (let source1 = new_Uint8Array source in (this1, s1))
         else if False then
           (this1, emit (TexImage2D_pixels (TEXTURE_2D gl) 0 (format this1) width height 0
                           (format this1) (UNSIGNED_BYTE gl) (Some source)) s1)
         else
           (this1, emit (TexImage2D_image (TEXTURE_2D gl) 0 (format this1) (format this1)
                           (UNSIGNED_BYTE gl) source) s1))"

definition Texture_subset ::
  "gl_context \<Rightarrow> tex_source \<Rightarrow> int \<Rightarrow> int \<Rightarrow> int option \<Rightarrow> int option \<Rightarrow> Texture \<Rightarrow> gl_state
     \<Rightarrow> (error + unit) \<times> Texture \<times> gl_state" where
  "Texture_subset gl source xoff yoff width height this s =
     (let (this1, s1) = Texture_bind gl None this s;
          source1 = (if instanceof_Array source then new_Uint8Array source else source)
      in if instanceof_Uint8Array source1 then
           (if width = None \<and> height = None
            then (Inl (MissingDimensions ''Must supply width or height when using an array''), this1, s1)
            else (Inr (), this1,
                  emit (TexSubImage2D_pixels (TEXTURE_2D gl) 0 xoff yoff width height (format this1)
                          (UNSIGNED_BYTE gl) source1) s1))
         else
           (Inr (), this1,
            emit (TexSubImage2D_image (TEXTURE_2D gl) 0 xoff yoff (format this1)
                    (UNSIGNED_BYTE gl) source1) s1))"

definition is_texSubImage2D :: "gl_call \<Rightarrow> bool" where
  "is_texSubImage2D c =
     (case c of TexSubImage2D_pixels t l x y w h f ty d \<Rightarrow> True
              | TexSubImage2D_image t l x y f ty d \<Rightarrow> True
              | _ \<Rightarrow> False)"

definition is_texImage2D :: "gl_call \<Rightarrow> bool" where
  "is_texImage2D c =
     (case c of TexImage2D_pixels t l f w h b f2 ty d \<Rightarrow> True
              | TexImage2D_image t l f f2 ty d \<Rightarrow> True
              | _ \<Rightarrow> False)"

section \<open>Framebuffer\<close>

text \<open>
  The \<^verbatim>\<open>framebuffer\<close> field is \<open>None\<close> for \<^verbatim>\<open>null\<close>, the context's default
  target.  The constructor tests \<^verbatim>\<open>arguments.length == 2\<close>: its second argument is
  \<open>None\<close> when the caller passed no handle argument at all and \<open>Some h\<close> when the
  caller passed \<open>h\<close>, be it \<^verbatim>\<open>null\<close>.
\<close>

record Framebuffer =
  framebuffer :: "handle option"
  renderbuffer :: "handle option"

definition Framebuffer_constructor :: "handle option option \<Rightarrow> gl_state \<Rightarrow> Framebuffer \<times> gl_state" where
  "Framebuffer_constructor arg s =
     (case arg of
        Some fb \<Rightarrow> (\<lparr>framebuffer = fb, renderbuffer = None\<rparr>, s)
      | None \<Rightarrow> (let (fb, s1) = create CreateFramebuffer s
                 in (\<lparr>framebuffer = Some fb, renderbuffer = None\<rparr>, s1)))"

definition Framebuffer_bind :: "gl_context \<Rightarrow> Framebuffer \<Rightarrow> gl_state \<Rightarrow> Framebuffer \<times> gl_state" where
  "Framebuffer_bind gl this s = (this, emit (BindFramebuffer (FRAMEBUFFER gl) (framebuffer this)) s)"

definition Framebuffer_unbind :: "gl_context \<Rightarrow> Framebuffer \<Rightarrow> gl_state \<Rightarrow> Framebuffer \<times> gl_state" where
  "Framebuffer_unbind gl this s = (this, emit (BindFramebuffer (FRAMEBUFFER gl) None) s)"

definition Framebuffer_attach :: "gl_context \<Rightarrow> Texture \<Rightarrow> Framebuffer \<Rightarrow> gl_state \<Rightarrow> Framebuffer \<times> gl_state" where
  "Framebuffer_attach gl tex this s =
     (let (this1, s1) = Framebuffer_bind gl this s
      in (this1, emit (FramebufferTexture2D (FRAMEBUFFER gl) (COLOR_ATTACHMENT0 gl) (TEXTURE_2D gl)
                         (texture tex) 0) s1))"

definition Framebuffer_attachDepth ::
  "gl_context \<Rightarrow> int \<Rightarrow> int \<Rightarrow> Framebuffer \<Rightarrow> gl_state \<Rightarrow> Framebuffer \<times> gl_state" where
  "Framebuffer_attachDepth gl width height this s =
     (let (this1, s1) = Framebuffer_bind gl this s
      in if renderbuffer this1 = None then
           (let (rb, s2) = create CreateRenderbuffer s1;
                this2 = this1\<lparr>renderbuffer := Some rb\<rparr>;
                s3 = emit (RenderbufferStorage (RENDERBUFFER gl) (DEPTH_COMPONENT16 gl) width height) s2;
                s4 = emit (FramebufferRenderbuffer (FRAMEBUFFER gl) (DEPTH_ATTACHMENT gl)
                             (RENDERBUFFER gl) (renderbuffer this2)) s3
            in (this2, s4))
         else (this1, s1))"

text \<open>A caller making several \<^verbatim>\<open>attachDepth\<close> calls in a row on the same instance.\<close>

fun attachDepth_all :: "gl_context \<Rightarrow> (int \<times> int) list \<Rightarrow> Framebuffer \<Rightarrow> gl_state \<Rightarrow> Framebuffer \<times> gl_state" where
  "attachDepth_all gl [] this s = (this, s)"
| "attachDepth_all gl ((w, h) # rest) this s =
     (let (this1, s1) = Framebuffer_attachDepth gl w h this s in attachDepth_all gl rest this1 s1)"

text \<open>The calls that allocate, size or attach a renderbuffer, and the framebuffer allocations.\<close>

definition is_renderbuffer_call :: "gl_call \<Rightarrow> bool" where
  "is_renderbuffer_call c =
     (case c of CreateRenderbuffer \<Rightarrow> True
              | RenderbufferStorage t f w h \<Rightarrow> True
              | FramebufferRenderbuffer t a r rb \<Rightarrow> True
              | _ \<Rightarrow> False)"

definition renderbuffer_calls :: "gl_state \<Rightarrow> gl_call list" where
  "renderbuffer_calls s = filter is_renderbuffer_call (calls s)"

definition framebuffer_allocations :: "gl_state \<Rightarrow> nat" where
  "framebuffer_allocations s = length (filter (\<lambda>c. c = CreateFramebuffer) (calls s))"

section \<open>Igloo\<close>

text \<open>
  What \<^verbatim>\<open>canvas.getContext(name, options)\<close> does for a context name: it throws, it
  returns \<^verbatim>\<open>null\<close>, or it returns a context.  A canvas is given by that behaviour.
\<close>

datatype context_answer = Throws | NoContext | Context gl_context

type_synonym HTMLCanvasElement = "string \<Rightarrow> context_answer"

datatype canvas_or_context = Canvas HTMLCanvasElement | RenderingContext gl_context

record Igloo =
  igloo_gl :: "gl_context option"
  defaultFramebuffer :: Framebuffer

definition Igloo_getContext :: "HTMLCanvasElement \<Rightarrow> bool \<Rightarrow> error + gl_context option" where
  "Igloo_getContext canvas noerror =
     (let g = (case canvas ''webgl'' of
                 Throws \<Rightarrow> None
               | Context c \<Rightarrow> Some c
               | NoContext \<Rightarrow> (case canvas ''experimental-webgl'' of
                                 Throws \<Rightarrow> None
                               | Context c \<Rightarrow> Some c
                               | NoContext \<Rightarrow> None))
      in case g of
           None \<Rightarrow> if \<not> noerror then Inl (ContextCreationError ''Could not create WebGL context.'')
                   else Inr None
         | Some c \<Rightarrow> Inr (Some c))"

definition Igloo_constructor :: "canvas_or_context \<Rightarrow> gl_state \<Rightarrow> (error + Igloo) \<times> gl_state" where
  "Igloo_constructor arg s =
     (case (case arg of Canvas canvas \<Rightarrow> Igloo_getContext canvas False
                      | RenderingContext c \<Rightarrow> Inr (Some c)) of
        Inl e \<Rightarrow> (Inl e, s)
      | Inr g \<Rightarrow> (let (fb, s1) = Framebuffer_constructor (Some None) s
                  in (Inr \<lparr>igloo_gl = g, defaultFramebuffer = fb\<rparr>, s1)))"

text \<open>\<^verbatim>\<open>Igloo.framebuffer(texture)\<close>: the factory passes no handle argument.\<close>

definition Igloo_framebuffer :: "gl_context \<Rightarrow> Texture option \<Rightarrow> gl_state \<Rightarrow> Framebuffer \<times> gl_state" where
  "Igloo_framebuffer gl tex s =
     (let (fb, s1) = Framebuffer_constructor None s
      in case tex of None \<Rightarrow> (fb, s1) | Some t \<Rightarrow> Framebuffer_attach gl t fb s1)"

section \<open>Program\<close>

text \<open>
  \<^verbatim>\<open>#vars\<close> is initialised to \<^verbatim>\<open>{}\<close>, a plain object used as a dictionary from
  variable names to what the context answered for them, uniform locations and
  attribute indices alike.  A plain object is more than its own properties: it has a
  prototype, \<^verbatim>\<open>Object.prototype\<close> at first, and a read of a name it has no own
  property for finds the member of that name up the prototype chain.  So the object
  is modelled by its own properties (\<open>vars\<close>) and its prototype
  (\<open>vars_prototype\<close>).  The prototype can change: an assignment to the name
  \<^verbatim>\<open>__proto__\<close> runs the setter inherited from \<^verbatim>\<open>Object.prototype\<close>, which makes an
  object or \<^verbatim>\<open>null\<close> the new prototype and ignores a number.  A uniform location
  object as prototype still has \<^verbatim>\<open>Object.prototype\<close> up its chain; under the
  prototype \<^verbatim>\<open>null\<close> nothing is inherited, the setter included.
\<close>

datatype prototype = Object_prototype | Location_prototype nat | Null_prototype

record Program =
  vars :: "string \<rightharpoonup> location"
  vars_prototype :: prototype
  program :: handle

text \<open>The string-named members of \<^verbatim>\<open>Object.prototype\<close>.\<close>

definition Object_prototype_names :: "string list" where
  "Object_prototype_names =
     [''constructor'', ''hasOwnProperty'', ''isPrototypeOf'', ''propertyIsEnumerable'',
      ''toLocaleString'', ''toString'', ''valueOf'', ''__proto__'',
      ''__defineGetter__'', ''__defineSetter__'', ''__lookupGetter__'', ''__lookupSetter__'']"

text \<open>
  \<^verbatim>\<open>this.#vars[name]\<close>: the own property if there is one, else what the prototype
  chain has under the name.  The getter of \<^verbatim>\<open>__proto__\<close> answers the prototype.
\<close>

definition lookup :: "Program \<Rightarrow> string \<Rightarrow> location" where
  "lookup this name =
     (case vars this name of
        Some l \<Rightarrow> l
      | None \<Rightarrow>
          (case vars_prototype this of
             Null_prototype \<Rightarrow> Undefined
           | Object_prototype \<Rightarrow>
               if name \<in> set Object_prototype_names then Inherited name else Undefined
           | Location_prototype l \<Rightarrow>
               if name = ''__proto__'' then UniformLocation l
               else if name \<in> set Object_prototype_names then Inherited name
               else Undefined))"

text \<open>The test \<^verbatim>\<open>== null\<close>, true of \<^verbatim>\<open>null\<close> and \<^verbatim>\<open>undefined\<close> only.\<close>

fun is_null :: "location \<Rightarrow> bool" where
  "is_null Undefined = True"
| "is_null Null = True"
| "is_null (UniformLocation l) = False"
| "is_null (AttribIndex k) = False"
| "is_null (Inherited m) = False"

text \<open>
  \<^verbatim>\<open>this.#vars[name] = ...\<close>, for the two things the methods assign: the answer of
  \<^verbatim>\<open>getUniformLocation\<close> (a location object or \<^verbatim>\<open>null\<close>) and the answer of
  \<^verbatim>\<open>getAttribLocation\<close> (a number).  The assignment runs the inherited setter when
  the name is \<^verbatim>\<open>__proto__\<close>, the object has no own property of that name and its
  prototype is not \<^verbatim>\<open>null\<close>; otherwise it writes the own property.
\<close>

definition setter_applies :: "Program \<Rightarrow> string \<Rightarrow> bool" where
  "setter_applies this name =
     (name = ''__proto__'' \<and> vars this name = None \<and> vars_prototype this \<noteq> Null_prototype)"

definition assign_uniform :: "string \<Rightarrow> nat option \<Rightarrow> Program \<Rightarrow> Program" where
  "assign_uniform name answer this =
     (if setter_applies this name
      then this\<lparr>vars_prototype :=
                  (case answer of None \<Rightarrow> Null_prototype | Some l \<Rightarrow> Location_prototype l)\<rparr>
      else this\<lparr>vars := (vars this)(name \<mapsto>
                  (case answer of None \<Rightarrow> Null | Some l \<Rightarrow> UniformLocation l))\<rparr>)"

definition assign_attrib :: "string \<Rightarrow> int \<Rightarrow> Program \<Rightarrow> Program" where
  "assign_attrib name k this =
     (if setter_applies this name then this
      else this\<lparr>vars := (vars this)(name \<mapsto> AttribIndex k)\<rparr>)"

text \<open>
  \<^verbatim>\<open>makeShader\<close>.  The context's verdict on a shader is a function of its type and
  source text.
\<close>

definition Program_makeShader ::
  "gl_context \<Rightarrow> glenum \<Rightarrow> string \<Rightarrow> gl_state \<Rightarrow> (error + handle) \<times> gl_state" where
  "Program_makeShader gl shader_type source s =
     (let (shader, s1) = create (CreateShader shader_type) s;
          s2 = emit (ShaderSource shader source) s1;
          s3 = emit (CompileShader shader) s2;
          s4 = emit (GetShaderParameter shader (COMPILE_STATUS gl)) s3
      in if compileStatus gl shader_type source then (Inr shader, s4)
         else (Inl (ShaderCompileError (shaderInfoLog gl shader_type source)),
               emit (GetShaderInfoLog shader) s4))"

text \<open>
  The constructor.  An argument of \<^verbatim>\<open>attachShader\<close> is evaluated before the call, so
  a \<^verbatim>\<open>throw\<close> in \<^verbatim>\<open>makeShader\<close> leaves the constructor before anything later
  is called; no Program is returned then.
\<close>

definition Program_constructor ::
  "gl_context \<Rightarrow> string \<Rightarrow> string \<Rightarrow> gl_state \<Rightarrow> (error + Program) \<times> gl_state" where
  "Program_constructor gl vertex fragment s =
     (let (p, s1) = create CreateProgram s
      in case Program_makeShader gl (VERTEX_SHADER gl) vertex s1 of
           (Inl e, s2) \<Rightarrow> (Inl e, s2)
         | (Inr vs, s2) \<Rightarrow>
             (let s3 = emit (AttachShader p vs) s2
              in case Program_makeShader gl (FRAGMENT_SHADER gl) fragment s3 of
                   (Inl e, s4) \<Rightarrow> (Inl e, s4)
                 | (Inr fs, s4) \<Rightarrow>
                     (let s5 = emit (AttachShader p fs) s4;
                          s6 = emit (LinkProgram p) s5;
                          s7 = emit (GetProgramParameter p (LINK_STATUS gl)) s6
                      in if \<not> linkStatus gl vertex fragment
                         then (Inl (ProgramLinkError (programInfoLog gl vertex fragment)),
                               emit (GetProgramInfoLog p) s7)
                         else (Inr \<lparr>vars = Map.empty, vars_prototype = Object_prototype, program = p\<rparr>, s7))))"

definition is_linkProgram :: "gl_call \<Rightarrow> bool" where
  "is_linkProgram c = (case c of LinkProgram p \<Rightarrow> True | _ \<Rightarrow> False)"

definition link_calls :: "gl_state \<Rightarrow> nat" where
  "link_calls s = length (filter is_linkProgram (calls s))"

subsection \<open>The shape of a uniform value\<close>

fun kind_name :: "typed_kind \<Rightarrow> string" where
  "kind_name Int8Array = ''Int8Array''"
| "kind_name Uint8Array = ''Uint8Array''"
| "kind_name Uint8ClampedArray = ''Uint8ClampedArray''"
| "kind_name Int16Array = ''Int16Array''"
| "kind_name Uint16Array = ''Uint16Array''"
| "kind_name Int32Array = ''Int32Array''"
| "kind_name Uint32Array = ''Uint32Array''"
| "kind_name Float32Array = ''Float32Array''"
| "kind_name Float64Array = ''Float64Array''"

text \<open>\<^verbatim>\<open>Object.prototype.toString.apply(object, [])\<close>\<close>

fun toString_tag :: "uniform_value \<Rightarrow> string" where
  "toString_tag (Number r) = ''[object Number]''"
| "toString_tag (Boolean b) = ''[object Boolean]''"
| "toString_tag (NumberArray xs) = ''[object Array]''"
| "toString_tag (BufferView (TypedArray k xs)) = ''[object '' @ kind_name k @ '']''"
| "toString_tag (BufferView (DataView n)) = ''[object DataView]''"
| "toString_tag (String str) = ''[object String]''"
| "toString_tag PlainObject = ''[object Object]''"

definition ends_with :: "string \<Rightarrow> string \<Rightarrow> bool" where
  "ends_with str suffix = (length suffix \<le> length str \<and> drop (length str - length suffix) str = suffix)"

text \<open>
  \<^verbatim>\<open>Igloo.isArray\<close>: the regular expression
  \<^verbatim>\<open>/ (Float(32|64)|Int(16|32|8)|Uint(16|32|8(Clamped)?))?Array]$/\<close> matches a tag
  that ends with a blank, one of the ten alternatives below and \<^verbatim>\<open>Array]\<close>.
\<close>

definition isArray :: "uniform_value \<Rightarrow> bool" where
  "isArray object =
     list_ex (\<lambda>k. ends_with (toString_tag object) ('' '' @ k @ ''Array]''))
       [[], ''Float32'', ''Float64'', ''Int16'', ''Int32'', ''Int8'',
        ''Uint16'', ''Uint32'', ''Uint8'', ''Uint8Clamped'']"

fun typeof :: "uniform_value \<Rightarrow> string" where
  "typeof (Number r) = ''number''"
| "typeof (Boolean b) = ''boolean''"
| "typeof (String str) = ''string''"
| "typeof (NumberArray xs) = ''object''"
| "typeof (BufferView v) = ''object''"
| "typeof PlainObject = ''object''"

text \<open>\<^verbatim>\<open>value.length\<close>; \<open>None\<close> where the property is \<^verbatim>\<open>undefined\<close>.\<close>

fun value_length :: "uniform_value \<Rightarrow> nat option" where
  "value_length (NumberArray xs) = Some (length xs)"
| "value_length (BufferView (TypedArray k xs)) = Some (length xs)"
| "value_length (String str) = Some (length str)"
| "value_length (BufferView (DataView n)) = None"
| "value_length (Number r) = None"
| "value_length (Boolean b) = None"
| "value_length PlainObject = None"

text \<open>The decimal numeral of a natural number, as string concatenation renders it.\<close>

fun show_nat :: "nat \<Rightarrow> string" where
  "show_nat n = (if n < 10 then [''0123456789'' ! n]
                 else show_nat (n div 10) @ [''0123456789'' ! (n mod 10)])"

declare show_nat.simps [simp del]

definition length_text :: "uniform_value \<Rightarrow> string" where
  "length_text v = (case value_length v of None \<Rightarrow> ''undefined'' | Some l \<Rightarrow> show_nat l)"

text \<open>
  \<^verbatim>\<open>this.gl[method]\<close> for the names the two methods can build.  A context has the
  vector entry points \<^verbatim>\<open>uniform{1,2,3,4}{f,i}v\<close> and the matrix entry points
  \<^verbatim>\<open>uniformMatrix{2,3,4}fv\<close>; under any other such name the property is
  \<^verbatim>\<open>undefined\<close>, and calling it is a \<^verbatim>\<open>TypeError\<close>.
\<close>

definition gl_vector_method :: "string \<Rightarrow> (location \<Rightarrow> uniform_value \<Rightarrow> gl_call) option" where
  "gl_vector_method =
     map_of [(''uniform1fv'', Uniform1fv), (''uniform2fv'', Uniform2fv),
             (''uniform3fv'', Uniform3fv), (''uniform4fv'', Uniform4fv),
             (''uniform1iv'', Uniform1iv), (''uniform2iv'', Uniform2iv),
             (''uniform3iv'', Uniform3iv), (''uniform4iv'', Uniform4iv)]"

definition gl_matrix_method :: "string \<Rightarrow> (location \<Rightarrow> bool \<Rightarrow> matrix_value \<Rightarrow> gl_call) option" where
  "gl_matrix_method =
     map_of [(''uniformMatrix2fv'', UniformMatrix2fv), (''uniformMatrix3fv'', UniformMatrix3fv),
             (''uniformMatrix4fv'', UniformMatrix4fv)]"

subsection \<open>uniform, matrix, attrib\<close>

function Program_uniform ::
  "gl_context \<Rightarrow> string \<Rightarrow> uniform_value option \<Rightarrow> bool \<Rightarrow> Program \<Rightarrow> gl_state
     \<Rightarrow> (error + unit) \<times> Program \<times> gl_state" where
  "Program_uniform gl name None i this s =
     (Inr (),
      assign_uniform name (uniformLocation gl (program this) name) this,
      emit (GetUniformLocation (program this) name) s)"
| "Program_uniform gl name (Some v) i this s =
     (case (if is_null (lookup this name)
            then Program_uniform gl name None False this s
            else (Inr (), this, s)) of
        (Inl e, this1, s1) \<Rightarrow> (Inl e, this1, s1)
      | (Inr u, this1, s1) \<Rightarrow>
          (let loc = lookup this1 name
           in if isArray v then
                (case gl_vector_method (''uniform'' @ length_text v @ (if i then ''i'' else ''f'') @ ''v'') of
                   None \<Rightarrow> (Inl (TypeError (''uniform'' @ length_text v @ (if i then ''i'' else ''f'') @ ''v'')),
                            this1, s1)
                 | Some entry \<Rightarrow> (Inr (), this1, emit (entry loc v) s1))
              else if typeof v = ''number'' \<or> typeof v = ''boolean'' then
                (if i then (Inr (), this1, emit (Uniform1i loc v) s1)
                 else (Inr (), this1, emit (Uniform1f loc v) s1))
              else (Inl (InvalidUniformValue v), this1, s1)))"
  by pat_completeness auto
termination
  by (relation "measure (\<lambda>(gl, name, v, i, this, s). case v of None \<Rightarrow> 0 | Some x \<Rightarrow> Suc 0)") auto

text \<open>
  \<^verbatim>\<open>Math.sqrt(length)\<close> as it enters the method name: the root when it is a whole
  number, \<open>None\<close> when it is not (its rendering then has a fractional part, and no
  property of the context has such a name).
\<close>

definition Math_sqrt :: "nat \<Rightarrow> nat option" where
  "Math_sqrt n = find (\<lambda>k. k * k = n) [0..<Suc n]"

fun matrix_isArrayBufferView :: "matrix_value \<Rightarrow> bool" where
  "matrix_isArrayBufferView (MatrixArray xs) = False"
| "matrix_isArrayBufferView (MatrixView v) = True"

text \<open>
  \<^verbatim>\<open>matrix.byteLength\<close> and \<^verbatim>\<open>matrix.length\<close>.  A \<^verbatim>\<open>DataView\<close> has no
  \<^verbatim>\<open>length\<close>: the root of \<^verbatim>\<open>undefined\<close> is \<^verbatim>\<open>NaN\<close>, which names no entry point.
\<close>

fun matrix_byteLength :: "matrix_value \<Rightarrow> nat option" where
  "matrix_byteLength (MatrixArray xs) = None"
| "matrix_byteLength (MatrixView v) = Some (view_byteLength v)"

fun matrix_length :: "matrix_value \<Rightarrow> nat option" where
  "matrix_length (MatrixArray xs) = Some (length xs)"
| "matrix_length (MatrixView (TypedArray k xs)) = Some (length xs)"
| "matrix_length (MatrixView (DataView n)) = None"

text \<open>
  The method name \<^verbatim>\<open>'uniformMatrix' + Math.sqrt(length) + 'fv'\<close>, where it can be
  written down, and the property of the context under it.
\<close>

definition matrix_method_name :: "nat option \<Rightarrow> string option" where
  "matrix_method_name len =
     (case len of
        None \<Rightarrow> Some ''uniformMatrixNaNfv''
      | Some n \<Rightarrow> (case Math_sqrt n of
                     None \<Rightarrow> None
                   | Some k \<Rightarrow> Some (''uniformMatrix'' @ show_nat k @ ''fv'')))"

definition matrix_entry :: "nat option \<Rightarrow> (location \<Rightarrow> bool \<Rightarrow> matrix_value \<Rightarrow> gl_call) option" where
  "matrix_entry len = (case matrix_method_name len of None \<Rightarrow> None | Some m \<Rightarrow> gl_matrix_method m)"

text \<open>\<^verbatim>\<open>Program.matrix\<close> of the current sources, with \<^verbatim>\<open>ArrayBuffer.isView\<close>.\<close>

definition Program_matrix ::
  "gl_context \<Rightarrow> string \<Rightarrow> matrix_value \<Rightarrow> bool \<Rightarrow> Program \<Rightarrow> gl_state
     \<Rightarrow> (error + unit) \<times> Program \<times> gl_state" where
  "Program_matrix gl name m transposed this s =
     (case (if is_null (lookup this name)
            then Program_uniform gl name None False this s
            else (Inr (), this, s)) of
        (Inl e, this1, s1) \<Rightarrow> (Inl e, this1, s1)
      | (Inr u, this1, s1) \<Rightarrow>
          (let len = (if matrix_isArrayBufferView m then matrix_byteLength m else matrix_length m)
           in case matrix_entry len of
                None \<Rightarrow> (Inl (TypeError (case matrix_method_name len of None \<Rightarrow> [] | Some n \<Rightarrow> n)),
                         this1, s1)
              | Some entry \<Rightarrow> (Inr (), this1, emit (entry (lookup this1 name) transposed m) s1)))"

text \<open>
  The same method in the single-file copy of the library (and \<^verbatim>\<open>lib/igloo.js\<close>), where
  \<^verbatim>\<open>isArrayBufferView\<close> is \<^verbatim>\<open>typeof matrix === "ArrayBufferView"\<close>, never true: the
  element count is always \<^verbatim>\<open>matrix.length\<close>.
\<close>

definition Program_matrix_single_file ::
  "gl_context \<Rightarrow> string \<Rightarrow> matrix_value \<Rightarrow> bool \<Rightarrow> Program \<Rightarrow> gl_state
     \<Rightarrow> (error + unit) \<times> Program \<times> gl_state" where
  "Program_matrix_single_file gl name m transposed this s =
     (case (if is_null (lookup this name)
            then Program_uniform gl name None False this s
            else (Inr (), this, s)) of
        (Inl e, this1, s1) \<Rightarrow> (Inl e, this1, s1)
      | (Inr u, this1, s1) \<Rightarrow>
          (let len = (if False then matrix_byteLength m else matrix_length m)
           in case matrix_entry len of
                None \<Rightarrow> (Inl (TypeError (case matrix_method_name len of None \<Rightarrow> [] | Some n \<Rightarrow> n)),
                         this1, s1)
              | Some entry \<Rightarrow> (Inr (), this1, emit (entry (lookup this1 name) transposed m) s1)))"

function Program_attrib ::
  "gl_context \<Rightarrow> string \<Rightarrow> Buffer option \<Rightarrow> int option \<Rightarrow> int option \<Rightarrow> Program \<Rightarrow> gl_state
     \<Rightarrow> Program \<times> gl_state" where
  "Program_attrib gl name None sz stride this s =
     (assign_attrib name (attribLocation gl (program this) name) this,
      emit (GetAttribLocation (program this) name) s)"
| "Program_attrib gl name (Some buf) sz stride this s =
     (let (this1, s1) = (if is_null (lookup this name)
                         then Program_attrib gl name None None None this s
                         else (this, s));
          (buf1, s2) = Buffer_bind buf s1;
          s3 = emit (EnableVertexAttribArray (lookup this1 name)) s2;
          s4 = emit (VertexAttribPointer (lookup this1 name) sz (FLOAT gl) False
                       (case stride of None \<Rightarrow> 0 | Some k \<Rightarrow> k) 0) s3
      in (this1, s4))"
  by pat_completeness auto
termination
  by (relation "measure (\<lambda>(gl, name, b, sz, stride, this, s). case b of None \<Rightarrow> 0 | Some x \<Rightarrow> Suc 0)") auto

text \<open>
  A caller's calls on one Program: \<^verbatim>\<open>uniform\<close> with a value and \<^verbatim>\<open>attrib\<close> with a
  buffer.  Each call is made on the Program as the calls before left it, whether they
  returned or threw (the cache is filled before a \<^verbatim>\<open>throw\<close> of \<^verbatim>\<open>uniform\<close>).
\<close>

datatype program_call =
    Uniform string uniform_value bool
  | Attrib string Buffer "int option" "int option"

fun call_name :: "program_call \<Rightarrow> string" where
  "call_name (Uniform name v i) = name"
| "call_name (Attrib name buf sz stride) = name"

fun run_call :: "gl_context \<Rightarrow> program_call \<Rightarrow> Program \<Rightarrow> gl_state \<Rightarrow> Program \<times> gl_state" where
  "run_call gl (Uniform name v i) this s = snd (Program_uniform gl name (Some v) i this s)"
| "run_call gl (Attrib name buf sz stride) this s = Program_attrib gl name (Some buf) sz stride this s"

fun run_calls :: "gl_context \<Rightarrow> program_call list \<Rightarrow> Program \<Rightarrow> gl_state \<Rightarrow> Program \<times> gl_state" where
  "run_calls gl [] this s = (this, s)"
| "run_calls gl (c # cs) this s = (let (this1, s1) = run_call gl c this s in run_calls gl cs this1 s1)"

text \<open>The location and index queries for a name in a log, and the uniform entry points.\<close>

definition is_location_query :: "string \<Rightarrow> gl_call \<Rightarrow> bool" where
  "is_location_query name c =
     (case c of GetUniformLocation p n \<Rightarrow> n = name
              | GetAttribLocation p n \<Rightarrow> n = name
              | _ \<Rightarrow> False)"

definition location_queries :: "string \<Rightarrow> gl_state \<Rightarrow> nat" where
  "location_queries name s = length (filter (is_location_query name) (calls s))"

definition is_uniform_entry :: "gl_call \<Rightarrow> bool" where
  "is_uniform_entry c =
     (case c of Uniform1f l v \<Rightarrow> True | Uniform1i l v \<Rightarrow> True
              | Uniform1fv l v \<Rightarrow> True | Uniform2fv l v \<Rightarrow> True
              | Uniform3fv l v \<Rightarrow> True | Uniform4fv l v \<Rightarrow> True
              | Uniform1iv l v \<Rightarrow> True | Uniform2iv l v \<Rightarrow> True
              | Uniform3iv l v \<Rightarrow> True | Uniform4iv l v \<Rightarrow> True
              | UniformMatrix2fv l t m \<Rightarrow> True | UniformMatrix3fv l t m \<Rightarrow> True
              | UniformMatrix4fv l t m \<Rightarrow> True
              | _ \<Rightarrow> False)"

definition uniform_entries :: "gl_state \<Rightarrow> gl_call list" where
  "uniform_entries s = filter is_uniform_entry (calls s)"

subsection \<open>The dispatch as the specification words it\<close>

text \<open>
  The specification describes \<^verbatim>\<open>uniform\<close> with a value in two steps.  First the name
  is made sure to be cached, "using the same absent-value path".  Then the value's
  shape decides: a numeric-array-like of length 1 to 4 goes to the vector entry point
  of that length, a number or boolean to the scalar entry point, anything else fails
  with \<open>InvalidUniformValue\<close>.  For an array-like of another length the
  specification leaves the behaviour undefined: \<open>None\<close>.
\<close>

definition ensure_cached :: "gl_context \<Rightarrow> string \<Rightarrow> Program \<Rightarrow> gl_state \<Rightarrow> Program \<times> gl_state" where
  "ensure_cached gl name this s =
     (if is_null (lookup this name)
      then snd (Program_uniform gl name None False this s)
      else (this, s))"

datatype shape = ArrayLike nat | Scalar | Other

fun shape_of :: "uniform_value \<Rightarrow> shape" where
  "shape_of (NumberArray xs) = ArrayLike (length xs)"
| "shape_of (BufferView (TypedArray k xs)) = ArrayLike (length xs)"
| "shape_of (Number r) = Scalar"
| "shape_of (Boolean b) = Scalar"
| "shape_of (BufferView (DataView n)) = Other"
| "shape_of (String str) = Other"
| "shape_of PlainObject = Other"

definition vector_entry :: "nat \<Rightarrow> bool \<Rightarrow> location \<Rightarrow> uniform_value \<Rightarrow> gl_call" where
  "vector_entry l i =
     (if l = 1 then (if i then Uniform1iv else Uniform1fv)
      else if l = 2 then (if i then Uniform2iv else Uniform2fv)
      else if l = 3 then (if i then Uniform3iv else Uniform3fv)
      else (if i then Uniform4iv else Uniform4fv))"

definition uniform_as_specified ::
  "gl_context \<Rightarrow> string \<Rightarrow> uniform_value \<Rightarrow> bool \<Rightarrow> Program \<Rightarrow> gl_state
     \<Rightarrow> ((error + unit) \<times> Program \<times> gl_state) option" where
  "uniform_as_specified gl name v i this s =
     (let (this1, s1) = ensure_cached gl name this s;
          loc = lookup this1 name
      in case shape_of v of
           ArrayLike l \<Rightarrow>
             if 1 \<le> l \<and> l \<le> 4 then Some (Inr (), this1, emit (vector_entry l i loc v) s1)
             else None
         | Scalar \<Rightarrow> Some (Inr (), this1, emit ((if i then Uniform1i else Uniform1f) loc v) s1)
         | Other \<Rightarrow> Some (Inl (InvalidUniformValue v), this1, s1))"

section \<open>A context and objects to evaluate on\<close>

text \<open>
  A context with the enumeration values of WebGL 1.  Its compiler rejects the source
  \<^verbatim>\<open>bad\<close>, its linker rejects the fragment source \<^verbatim>\<open>unlinkable\<close>, the active
  uniforms of a program are \<^verbatim>\<open>color\<close>, \<^verbatim>\<open>mvp\<close> and \<^verbatim>\<open>scale\<close> (any other
  name, such as \<^verbatim>\<open>unused\<close>, has the location \<^verbatim>\<open>null\<close>) and \<^verbatim>\<open>position\<close> is
  the attribute of index 0.
\<close>

definition webgl :: gl_context where
  "webgl = \<lparr>ARRAY_BUFFER = 0x8892, DYNAMIC_DRAW = 0x88E8, TEXTURE_2D = 0x0DE1, TEXTURE0 = 0x84C0,
     UNSIGNED_BYTE = 0x1401, RGBA = 0x1908, CLAMP_TO_EDGE = 0x812F, LINEAR = 0x2601,
     TEXTURE_WRAP_S = 0x2802, TEXTURE_WRAP_T = 0x2803, TEXTURE_MIN_FILTER = 0x2801,
     TEXTURE_MAG_FILTER = 0x2800, FRAMEBUFFER = 0x8D40, RENDERBUFFER = 0x8D41,
     COLOR_ATTACHMENT0 = 0x8CE0, DEPTH_ATTACHMENT = 0x8D00, DEPTH_COMPONENT16 = 0x81A5,
     VERTEX_SHADER = 0x8B31, FRAGMENT_SHADER = 0x8B30, COMPILE_STATUS = 0x8B81,
     LINK_STATUS = 0x8B82, FLOAT = 0x1406,
     compileStatus = (\<lambda>ty src. src \<noteq> ''bad''),
     shaderInfoLog = (\<lambda>ty src. if src = ''bad'' then ''ERROR: 0:1: syntax error'' else []),
     linkStatus = (\<lambda>v f. f \<noteq> ''unlinkable''),
     programInfoLog = (\<lambda>v f. if f = ''unlinkable'' then ''varyings do not match'' else []),
     uniformLocation = (\<lambda>p. map_of [(''color'', 1), (''mvp'', 2), (''scale'', 3)]),
     attribLocation = (\<lambda>p n. if n = ''position'' then 0 else - 1)\<rparr>"

definition start :: gl_state where
  "start = \<lparr>calls = [], created = 0\<rparr>"

definition new_program :: Program where
  "new_program = \<lparr>vars = Map.empty, vars_prototype = Object_prototype, program = 0\<rparr>"

definition new_buffer :: Buffer where
  "new_buffer = \<lparr>target = 0x8892, buffer = 0, size' = - 1\<rparr>"

definition new_texture :: Texture where
  "new_texture = \<lparr>texture = 0, format = 0x1908\<rparr>"

definition wrapped_framebuffer :: Framebuffer where
  "wrapped_framebuffer = \<lparr>framebuffer = Some 0, renderbuffer = None\<rparr>"

definition after_createFramebuffer :: gl_state where
  "after_createFramebuffer = \<lparr>calls = [CreateFramebuffer], created = 1\<rparr>"

text \<open>Three uploads of eight bytes each: a typed array, a plain array, a raw buffer.\<close>

definition three_updates :: "(update_data \<times> glenum option) list" where
  "three_updates =
     [(Source (ArrayBufferView (TypedArray Float32Array [1, 2])), None),
      (PlainArray [3, 4], Some 0x88E4),
      (Source (ArrayBuffer 8), None)]"

definition identity4 :: "real list" where
  "identity4 = [1, 0, 0, 0, 0, 1, 0, 0, 0, 0, 1, 0, 0, 0, 0, 1]"





declare Program_uniform.simps [simp del]
declare Program_attrib.simps [simp del]

section \<open>The example context\<close>

lemma webgl_consts:
  "ARRAY_BUFFER webgl = 0x8892" "DYNAMIC_DRAW webgl = 0x88E8" "TEXTURE_2D webgl = 0x0DE1"
  "UNSIGNED_BYTE webgl = 0x1401" "FRAMEBUFFER webgl = 0x8D40" "RENDERBUFFER webgl = 0x8D41"
  "DEPTH_ATTACHMENT webgl = 0x8D00" "DEPTH_COMPONENT16 webgl = 0x81A5"
  "VERTEX_SHADER webgl = 0x8B31" "FRAGMENT_SHADER webgl = 0x8B30"
  "COMPILE_STATUS webgl = 0x8B81" "LINK_STATUS webgl = 0x8B82" "FLOAT webgl = 0x1406"
  by (simp_all add: webgl_def)

lemma webgl_answers:
  "compileStatus webgl ty src = (src \<noteq> ''bad'')"
  "shaderInfoLog webgl ty src = (if src = ''bad'' then ''ERROR: 0:1: syntax error'' else [])"
  "linkStatus webgl v f = (f \<noteq> ''unlinkable'')"
  "programInfoLog webgl v f = (if f = ''unlinkable'' then ''varyings do not match'' else [])"
  "uniformLocation webgl p = map_of [(''color'', 1), (''mvp'', 2), (''scale'', 3)]"
  "attribLocation webgl p n = (if n = ''position'' then 0 else - 1)"
  by (simp_all add: webgl_def)

section \<open>Buffer: reallocation only when the size changes\<close>

lemma Buffer_update_eq:
  "Buffer_update gl dat usage b s =
     (if size' b \<noteq> data_size dat
      then (b\<lparr>size' := data_size dat\<rparr>,
            s\<lparr>calls := calls s @ [BindBuffer (target b) (buffer b),
                 BufferData (target b) (as_source dat) (case usage of None \<Rightarrow> DYNAMIC_DRAW gl | Some x \<Rightarrow> x)]\<rparr>)
      else (b, s\<lparr>calls := calls s @ [BindBuffer (target b) (buffer b),
                 BufferSubData (target b) 0 (as_source dat)]\<rparr>))"
  by (simp add: Buffer_update_def Buffer_bind_def emit_def data_size_def Let_def)

lemma Buffer_update_counts:
  "reallocations (snd (Buffer_update gl dat usage b s)) =
     reallocations s + (if size' b \<noteq> data_size dat then 1 else 0)"
  "partial_updates (snd (Buffer_update gl dat usage b s)) =
     partial_updates s + (if size' b \<noteq> data_size dat then 0 else 1)"
  "size' (fst (Buffer_update gl dat usage b s)) = data_size dat"
  by (simp_all add: Buffer_update_eq reallocations_def partial_updates_def
      is_bufferData_def is_bufferSubData_def)

text \<open>Updates of the size the buffer already has: none of them reallocates.\<close>

lemma update_all_cached:
  "\<forall>op\<in>set ops. data_size (fst op) = n \<Longrightarrow> size' b = n \<Longrightarrow>
     reallocations (snd (update_all gl ops b s)) = reallocations s \<and>
     partial_updates (snd (update_all gl ops b s)) = partial_updates s + length ops \<and>
     size' (fst (update_all gl ops b s)) = n"
proof (induction ops arbitrary: b s)
  case Nil
  then show ?case by simp
next
  case (Cons op ops)
  obtain dat usage where op: "op = (dat, usage)" by (cases op)
  obtain b1 s1 where u: "Buffer_update gl dat usage b s = (b1, s1)"
    by (cases "Buffer_update gl dat usage b s")
  from Cons.prems op have sz: "data_size dat = n" by simp
  have b1: "size' b1 = n" using Buffer_update_counts(3)[of gl dat usage b s] u sz by simp
  have r1: "reallocations s1 = reallocations s"
    using Buffer_update_counts(1)[of gl dat usage b s] u sz Cons.prems(2) by simp
  have p1: "partial_updates s1 = partial_updates s + 1"
    using Buffer_update_counts(2)[of gl dat usage b s] u sz Cons.prems(2) by simp
  from Cons.prems have rest: "\<forall>op\<in>set ops. data_size (fst op) = n" by simp
  show ?case using Cons.IH[OF rest b1, of s1] op u r1 p1 by simp
qed

text \<open>Updates of one size on a buffer that has another: only the first reallocates.\<close>

lemma update_all_first_reallocates:
  assumes "ops \<noteq> []" "\<forall>op\<in>set ops. data_size (fst op) = n" "size' b \<noteq> n"
  shows "reallocations (snd (update_all gl ops b s)) = reallocations s + 1 \<and>
     partial_updates (snd (update_all gl ops b s)) = partial_updates s + (length ops - 1)"
proof -
  from assms(1) obtain dat usage rest where ops: "ops = (dat, usage) # rest"
    by (cases ops) auto
  obtain b1 s1 where u: "Buffer_update gl dat usage b s = (b1, s1)"
    by (cases "Buffer_update gl dat usage b s")
  from assms(2) ops have sz: "data_size dat = n" by simp
  have b1: "size' b1 = n" using Buffer_update_counts(3)[of gl dat usage b s] u sz by simp
  have r1: "reallocations s1 = reallocations s + 1"
    using Buffer_update_counts(1)[of gl dat usage b s] u sz assms(3) by simp
  have p1: "partial_updates s1 = partial_updates s"
    using Buffer_update_counts(2)[of gl dat usage b s] u sz assms(3) by simp
  from assms(2) ops have rest: "\<forall>op\<in>set rest. data_size (fst op) = n" by simp
  show ?thesis using update_all_cached[OF rest b1, of gl s1] ops u r1 p1 by simp
qed

lemma data_size_nonneg: "0 \<le> data_size dat"
  by (simp add: data_size_def)

lemma Buffer_constructor_eq:
  "Buffer_constructor gl tgt s =
    (\<lparr>target = (case tgt of None \<Rightarrow> ARRAY_BUFFER gl | Some t \<Rightarrow> t), buffer = created s, size' = - 1\<rparr>,
     s\<lparr>calls := calls s @ [CreateBuffer], created := Suc (created s)\<rparr>)"
  by (simp add: Buffer_constructor_def create_def)

text \<open>
  C1.  One \<^verbatim>\<open>update\<close> binds the buffer and then either reallocates with the usage
  hint and caches the new byte length (when the byte length differs from the cached
  size) or updates in place at offset 0 and keeps the cached size; a call reallocates
  exactly once in the first case and not at all in the second.  A new buffer caches
  -1, which no byte length equals, so its first update reallocates.  Hence, for one or
  more consecutive updates of one byte length \<open>n\<close> on a buffer whose cached size is
  not \<open>n\<close> (a new buffer, or one last updated with another size), exactly one
  reallocation and \<open>length ops - 1\<close> in-place updates are issued.
\<close>

theorem Buffer_update_reallocates_on_size_change:
  "Buffer_update gl dat usage b s =
     (if size' b \<noteq> data_size dat
      then (b\<lparr>size' := data_size dat\<rparr>,
            s\<lparr>calls := calls s @ [BindBuffer (target b) (buffer b),
                 BufferData (target b) (as_source dat) (case usage of None \<Rightarrow> DYNAMIC_DRAW gl | Some x \<Rightarrow> x)]\<rparr>)
      else (b, s\<lparr>calls := calls s @ [BindBuffer (target b) (buffer b),
                 BufferSubData (target b) 0 (as_source dat)]\<rparr>))
   \<and> reallocations (snd (Buffer_update gl dat usage b s)) =
        reallocations s + (if size' b \<noteq> data_size dat then 1 else 0)
   \<and> partial_updates (snd (Buffer_update gl dat usage b s)) =
        partial_updates s + (if size' b \<noteq> data_size dat then 0 else 1)
   \<and> size' (fst (Buffer_constructor gl tgt s)) \<noteq> data_size dat
   \<and> (ops \<noteq> [] \<and> (\<forall>op\<in>set ops. data_size (fst op) = n) \<and> size' b \<noteq> n \<longrightarrow>
        reallocations (snd (update_all gl ops b s)) = reallocations s + 1 \<and>
        partial_updates (snd (update_all gl ops b s)) = partial_updates s + (length ops - 1))"
proof -
  have "size' (fst (Buffer_constructor gl tgt s)) \<noteq> data_size dat"
    using data_size_nonneg[of dat] by (simp add: Buffer_constructor_eq)
  then show ?thesis
    using Buffer_update_eq[of gl dat usage b s] Buffer_update_counts(1,2)[of gl dat usage b s]
      update_all_first_reallocates[of ops n b gl s]
    by blast
qed

theorem three_same_size_updates:
  "three_updates \<noteq> []
   \<and> map (\<lambda>op. data_size (fst op)) three_updates = [8, 8, 8]
   \<and> size' new_buffer \<noteq> 8
   \<and> reallocations (snd (update_all webgl three_updates new_buffer start)) = 1
   \<and> partial_updates (snd (update_all webgl three_updates new_buffer start)) = 2"
proof -
  have h1: "three_updates \<noteq> []" by (simp add: three_updates_def)
  have h2: "\<forall>op\<in>set three_updates. data_size (fst op) = 8"
    by (simp add: three_updates_def data_size_def)
  have h2': "map (\<lambda>op. data_size (fst op)) three_updates = [8, 8, 8]"
    by (simp add: three_updates_def data_size_def)
  have h3: "size' new_buffer \<noteq> 8" by (simp add: new_buffer_def)
  have s: "reallocations start = 0" "partial_updates start = 0" "length three_updates - 1 = 2"
    by (simp_all add: start_def reallocations_def partial_updates_def three_updates_def)
  from Buffer_update_reallocates_on_size_change
         [of webgl "PlainArray []" None new_buffer start None three_updates 8] h1 h2 h3
  have "reallocations (snd (update_all webgl three_updates new_buffer start)) = reallocations start + 1 \<and>
        partial_updates (snd (update_all webgl three_updates new_buffer start)) =
          partial_updates start + (length three_updates - 1)"
    by blast
  then have "reallocations (snd (update_all webgl three_updates new_buffer start)) = 1 \<and>
        partial_updates (snd (update_all webgl three_updates new_buffer start)) = 2"
    by (simp only: s) simp
  with h1 h2' h3 show ?thesis by blast
qed

text \<open>
  C10.  \<^verbatim>\<open>update\<close> with a plain array does what \<^verbatim>\<open>update\<close> with the
  \<^verbatim>\<open>Float32Array\<close> of its elements does: the byte length compared with the cached
  size, and cached afterwards, is four times the number of elements, and the
  \<^verbatim>\<open>Float32Array\<close> is what is uploaded.  An omitted or null usage is
  \<^verbatim>\<open>gl.DYNAMIC_DRAW\<close>.
\<close>

theorem Buffer_update_plain_array:
  "Buffer_update gl (PlainArray xs) usage b s =
     Buffer_update gl (Source (ArrayBufferView (TypedArray Float32Array xs))) usage b s
   \<and> data_size (PlainArray xs) = 4 * int (length xs)
   \<and> Buffer_update gl (PlainArray xs) usage b s =
     (if size' b \<noteq> 4 * int (length xs)
      then (b\<lparr>size' := 4 * int (length xs)\<rparr>,
            s\<lparr>calls := calls s @ [BindBuffer (target b) (buffer b),
                 BufferData (target b) (ArrayBufferView (TypedArray Float32Array xs))
                   (case usage of None \<Rightarrow> DYNAMIC_DRAW gl | Some x \<Rightarrow> x)]\<rparr>)
      else (b, s\<lparr>calls := calls s @ [BindBuffer (target b) (buffer b),
                 BufferSubData (target b) 0 (ArrayBufferView (TypedArray Float32Array xs))]\<rparr>))
   \<and> size' (fst (Buffer_update gl (PlainArray xs) usage b s)) = 4 * int (length xs)
   \<and> Buffer_update gl dat None b s = Buffer_update gl dat (Some (DYNAMIC_DRAW gl)) b s"
  by (simp add: Buffer_update_eq data_size_def)

section \<open>Texture: uploads\<close>

lemma Texture_bind_eq:
  "Texture_bind gl None this s = (this, s\<lparr>calls := calls s @ [BindTexture (TEXTURE_2D gl) (texture this)]\<rparr>)"
  by (simp add: Texture_bind_def emit_def)

text \<open>
  C9.  \<^verbatim>\<open>set\<close> with a plain array binds the texture and returns it; the only call
  made is \<^verbatim>\<open>bindTexture\<close>, so no \<^verbatim>\<open>texImage2D\<close> of either form is issued.  Both
  copies of the method in the repository behave so.
\<close>

theorem Texture_set_plain_array_uploads_nothing:
  "Texture_set gl (SourceArray xs) width height this s =
     (this, s\<lparr>calls := calls s @ [BindTexture (TEXTURE_2D gl) (texture this)]\<rparr>)
   \<and> Texture_set_single_file gl (SourceArray xs) width height this s =
     (this, s\<lparr>calls := calls s @ [BindTexture (TEXTURE_2D gl) (texture this)]\<rparr>)
   \<and> filter is_texImage2D (calls (snd (Texture_set gl (SourceArray xs) width height this s)))
       = filter is_texImage2D (calls s)"
  by (simp add: Texture_set_def Texture_set_single_file_def Texture_bind_eq is_texImage2D_def)

text \<open>
  C6.  \<^verbatim>\<open>subset\<close> with a raw pixel buffer of its signature (a \<^verbatim>\<open>Uint8Array\<close>, or
  a plain array, which becomes one) and neither width nor height throws the
  missing-dimensions error after binding, and issues no \<^verbatim>\<open>texSubImage2D\<close>.  With an
  image-like source and no dimensions it returns normally after the upload at
  \<open>(xoff, yoff)\<close> in the texture's stored format.
\<close>

theorem Texture_subset_missing_dimensions:
  "Texture_subset gl (SourceView (TypedArray Uint8Array xs)) xoff yoff None None this s =
     (Inl (MissingDimensions ''Must supply width or height when using an array''), this,
      s\<lparr>calls := calls s @ [BindTexture (TEXTURE_2D gl) (texture this)]\<rparr>)
   \<and> Texture_subset gl (SourceArray xs) xoff yoff None None this s =
     (Inl (MissingDimensions ''Must supply width or height when using an array''), this,
      s\<lparr>calls := calls s @ [BindTexture (TEXTURE_2D gl) (texture this)]\<rparr>)
   \<and> filter is_texSubImage2D
       (calls (snd (snd (Texture_subset gl (SourceView (TypedArray Uint8Array xs)) xoff yoff None None this s))))
       = filter is_texSubImage2D (calls s)
   \<and> filter is_texSubImage2D
       (calls (snd (snd (Texture_subset gl (SourceArray xs) xoff yoff None None this s))))
       = filter is_texSubImage2D (calls s)
   \<and> Texture_subset gl (ImageData w h) xoff yoff None None this s =
     (Inr (), this,
      s\<lparr>calls := calls s @ [BindTexture (TEXTURE_2D gl) (texture this),
          TexSubImage2D_image (TEXTURE_2D gl) 0 xoff yoff (format this) (UNSIGNED_BYTE gl) (ImageData w h)]\<rparr>)"
  by (simp add: Texture_subset_def Texture_bind_eq emit_def is_texSubImage2D_def)

text \<open>
  The signature of \<^verbatim>\<open>subset\<close> admits \<^verbatim>\<open>Uint8Array\<close> as the only buffer view.  A view
  of another kind handed in from untyped code is not an instance of it and takes the
  image path, whatever the dimensions.
\<close>

lemma Texture_subset_other_view:
  "\<not> instanceof_Uint8Array (SourceView v) \<Longrightarrow>
   Texture_subset gl (SourceView v) xoff yoff width height this s =
     (Inr (), this,
      s\<lparr>calls := calls s @ [BindTexture (TEXTURE_2D gl) (texture this),
          TexSubImage2D_image (TEXTURE_2D gl) 0 xoff yoff (format this) (UNSIGNED_BYTE gl) (SourceView v)]\<rparr>)"
  by (simp add: Texture_subset_def Texture_bind_eq emit_def)

section \<open>Framebuffer: the depth renderbuffer and the wrapped handle\<close>

lemma Framebuffer_attachDepth_first:
  "renderbuffer this = None \<Longrightarrow>
   Framebuffer_attachDepth gl w h this s =
     (this\<lparr>renderbuffer := Some (created s)\<rparr>,
      s\<lparr>calls := calls s @ [BindFramebuffer (FRAMEBUFFER gl) (framebuffer this),
             CreateRenderbuffer,
             RenderbufferStorage (RENDERBUFFER gl) (DEPTH_COMPONENT16 gl) w h,
             FramebufferRenderbuffer (FRAMEBUFFER gl) (DEPTH_ATTACHMENT gl) (RENDERBUFFER gl) (Some (created s))],
         created := Suc (created s)\<rparr>)"
  by (simp add: Framebuffer_attachDepth_def Framebuffer_bind_def emit_def create_def)

lemma Framebuffer_attachDepth_again:
  "renderbuffer this = Some rb \<Longrightarrow>
   Framebuffer_attachDepth gl w h this s =
     (this, s\<lparr>calls := calls s @ [BindFramebuffer (FRAMEBUFFER gl) (framebuffer this)]\<rparr>)"
  by (simp add: Framebuffer_attachDepth_def Framebuffer_bind_def emit_def create_def)

lemma attachDepth_all_again:
  "renderbuffer this = Some rb \<Longrightarrow>
   fst (attachDepth_all gl dims this s) = this \<and>
   renderbuffer_calls (snd (attachDepth_all gl dims this s)) = renderbuffer_calls s \<and>
   created (snd (attachDepth_all gl dims this s)) = created s"
proof (induction dims arbitrary: s)
  case Nil
  then show ?case by simp
next
  case (Cons d dims)
  obtain w h where d: "d = (w, h)" by (cases d)
  let ?s1 = "s\<lparr>calls := calls s @ [BindFramebuffer (FRAMEBUFFER gl) (framebuffer this)]\<rparr>"
  have step: "Framebuffer_attachDepth gl w h this s = (this, ?s1)"
    using Cons.prems by (rule Framebuffer_attachDepth_again)
  have same: "renderbuffer_calls ?s1 = renderbuffer_calls s" "created ?s1 = created s"
    by (simp_all add: renderbuffer_calls_def is_renderbuffer_call_def)
  show ?case using Cons.IH[OF Cons.prems, of ?s1] d step same by simp
qed

text \<open>
  C7.  A new Framebuffer has no depth renderbuffer.  On an instance that has none
  yet, \<^verbatim>\<open>attachDepth(w, h)\<close>
  binds the framebuffer, creates one renderbuffer, sizes it \<open>w\<close> by \<open>h\<close> in
  \<^verbatim>\<open>DEPTH_COMPONENT16\<close> and attaches it as the depth attachment.  Any later call on
  that instance, whatever its dimensions and whatever happened on the context in
  between, only binds the framebuffer.  So over a first call and any number of later
  ones the renderbuffer calls of the log grow by exactly the three of the first call,
  one object is created, and the field keeps the renderbuffer of the first call.
\<close>

theorem Framebuffer_attachDepth_once:
  assumes "renderbuffer this = None"
  shows "renderbuffer (fst (Framebuffer_constructor arg s0)) = None
   \<and> Framebuffer_attachDepth gl w h this s =
     (this\<lparr>renderbuffer := Some (created s)\<rparr>,
      s\<lparr>calls := calls s @ [BindFramebuffer (FRAMEBUFFER gl) (framebuffer this),
             CreateRenderbuffer,
             RenderbufferStorage (RENDERBUFFER gl) (DEPTH_COMPONENT16 gl) w h,
             FramebufferRenderbuffer (FRAMEBUFFER gl) (DEPTH_ATTACHMENT gl) (RENDERBUFFER gl) (Some (created s))],
         created := Suc (created s)\<rparr>)
   \<and> Framebuffer_attachDepth gl w' h' (this\<lparr>renderbuffer := Some (created s)\<rparr>) s' =
     (this\<lparr>renderbuffer := Some (created s)\<rparr>,
      s'\<lparr>calls := calls s' @ [BindFramebuffer (FRAMEBUFFER gl) (framebuffer this)]\<rparr>)
   \<and> renderbuffer (fst (attachDepth_all gl ((w, h) # later) this s)) = Some (created s)
   \<and> renderbuffer_calls (snd (attachDepth_all gl ((w, h) # later) this s)) =
       renderbuffer_calls s @
         [CreateRenderbuffer,
          RenderbufferStorage (RENDERBUFFER gl) (DEPTH_COMPONENT16 gl) w h,
          FramebufferRenderbuffer (FRAMEBUFFER gl) (DEPTH_ATTACHMENT gl) (RENDERBUFFER gl) (Some (created s))]
   \<and> created (snd (attachDepth_all gl ((w, h) # later) this s)) = Suc (created s)"
proof -
  let ?this1 = "this\<lparr>renderbuffer := Some (created s)\<rparr>"
  let ?s1 = "s\<lparr>calls := calls s @ [BindFramebuffer (FRAMEBUFFER gl) (framebuffer this),
             CreateRenderbuffer,
             RenderbufferStorage (RENDERBUFFER gl) (DEPTH_COMPONENT16 gl) w h,
             FramebufferRenderbuffer (FRAMEBUFFER gl) (DEPTH_ATTACHMENT gl) (RENDERBUFFER gl) (Some (created s))],
         created := Suc (created s)\<rparr>"
  have first: "Framebuffer_attachDepth gl w h this s = (?this1, ?s1)"
    using assms by (rule Framebuffer_attachDepth_first)
  have rb: "renderbuffer ?this1 = Some (created s)" by simp
  have again: "Framebuffer_attachDepth gl w' h' ?this1 s' =
     (?this1, s'\<lparr>calls := calls s' @ [BindFramebuffer (FRAMEBUFFER gl) (framebuffer this)]\<rparr>)"
    using Framebuffer_attachDepth_again[OF rb, of gl w' h' s'] by simp
  have s1: "renderbuffer_calls ?s1 = renderbuffer_calls s @
         [CreateRenderbuffer,
          RenderbufferStorage (RENDERBUFFER gl) (DEPTH_COMPONENT16 gl) w h,
          FramebufferRenderbuffer (FRAMEBUFFER gl) (DEPTH_ATTACHMENT gl) (RENDERBUFFER gl) (Some (created s))]"
       "created ?s1 = Suc (created s)"
    by (simp_all add: renderbuffer_calls_def is_renderbuffer_call_def)
  have all: "attachDepth_all gl ((w, h) # later) this s = attachDepth_all gl later ?this1 ?s1"
    using first by simp
  have new: "renderbuffer (fst (Framebuffer_constructor arg s0)) = None"
    by (simp add: Framebuffer_constructor_def create_def split: option.splits)
  show ?thesis
    using new first again attachDepth_all_again[OF rb, of gl later ?s1] s1 all by simp
qed

theorem attachDepth_three_times:
  "renderbuffer wrapped_framebuffer = None
   \<and> renderbuffer_calls (snd (attachDepth_all webgl ((640, 480) # [(1024, 768), (1, 1)])
        wrapped_framebuffer after_createFramebuffer)) =
       [CreateRenderbuffer, RenderbufferStorage 0x8D41 0x81A5 640 480,
        FramebufferRenderbuffer 0x8D40 0x8D00 0x8D41 (Some 1)]
   \<and> renderbuffer (fst (attachDepth_all webgl ((640, 480) # [(1024, 768), (1, 1)])
        wrapped_framebuffer after_createFramebuffer)) = Some 1"
proof -
  have h: "renderbuffer wrapped_framebuffer = None" by (simp add: wrapped_framebuffer_def)
  have r: "renderbuffer_calls after_createFramebuffer = []" "created after_createFramebuffer = 1"
    by (simp_all add: renderbuffer_calls_def is_renderbuffer_call_def after_createFramebuffer_def)
  note inst = Framebuffer_attachDepth_once[OF h, of None start webgl 640 480 after_createFramebuffer 0 0 start
      "[(1024, 768), (1, 1)]"]
  from inst have "renderbuffer_calls (snd (attachDepth_all webgl ((640, 480) # [(1024, 768), (1, 1)])
        wrapped_framebuffer after_createFramebuffer)) =
       renderbuffer_calls after_createFramebuffer @
       [CreateRenderbuffer, RenderbufferStorage (RENDERBUFFER webgl) (DEPTH_COMPONENT16 webgl) 640 480,
        FramebufferRenderbuffer (FRAMEBUFFER webgl) (DEPTH_ATTACHMENT webgl) (RENDERBUFFER webgl)
          (Some (created after_createFramebuffer))]"
    by blast
  then have a: "renderbuffer_calls (snd (attachDepth_all webgl ((640, 480) # [(1024, 768), (1, 1)])
        wrapped_framebuffer after_createFramebuffer)) =
       [CreateRenderbuffer, RenderbufferStorage 0x8D41 0x81A5 640 480,
        FramebufferRenderbuffer 0x8D40 0x8D00 0x8D41 (Some 1)]"
    by (simp only: r webgl_consts append_Nil)
  from inst have "renderbuffer (fst (attachDepth_all webgl ((640, 480) # [(1024, 768), (1, 1)])
        wrapped_framebuffer after_createFramebuffer)) = Some (created after_createFramebuffer)"
    by blast
  then have b: "renderbuffer (fst (attachDepth_all webgl ((640, 480) # [(1024, 768), (1, 1)])
        wrapped_framebuffer after_createFramebuffer)) = Some 1"
    by (simp only: r)
  from h a b show ?thesis by blast
qed

text \<open>
  C8.  The constructor with a handle argument, \<^verbatim>\<open>null\<close> included, wraps the handle
  and calls nothing; without a handle argument it calls \<^verbatim>\<open>createFramebuffer\<close> once
  and wraps the new handle.  The Igloo constructor passes an explicit \<^verbatim>\<open>null\<close>:
  whenever it returns, its default framebuffer holds \<^verbatim>\<open>null\<close> and nothing was
  called on the context (when it throws, nothing was called either).
\<close>

theorem Framebuffer_constructor_allocates_only_without_handle:
  "Framebuffer_constructor (Some h) s = (\<lparr>framebuffer = h, renderbuffer = None\<rparr>, s)
   \<and> framebuffer_allocations (snd (Framebuffer_constructor (Some h) s)) = framebuffer_allocations s
   \<and> Framebuffer_constructor None s =
       (\<lparr>framebuffer = Some (created s), renderbuffer = None\<rparr>,
        s\<lparr>calls := calls s @ [CreateFramebuffer], created := Suc (created s)\<rparr>)
   \<and> framebuffer_allocations (snd (Framebuffer_constructor None s)) = framebuffer_allocations s + 1
   \<and> (case Igloo_constructor arg s of
         (Inl e, s') \<Rightarrow> s' = s
       | (Inr ig, s') \<Rightarrow> s' = s \<and> defaultFramebuffer ig = \<lparr>framebuffer = None, renderbuffer = None\<rparr>)
   \<and> Igloo_constructor (RenderingContext g) s =
       (Inr \<lparr>igloo_gl = Some g, defaultFramebuffer = \<lparr>framebuffer = None, renderbuffer = None\<rparr>\<rparr>, s)"
  by (simp add: Framebuffer_constructor_def create_def framebuffer_allocations_def
      Igloo_constructor_def split: sum.splits canvas_or_context.splits)

text \<open>The factory \<^verbatim>\<open>Igloo.framebuffer\<close> passes no handle: it allocates one.\<close>

lemma Igloo_framebuffer_allocates:
  "framebuffer_allocations (snd (Igloo_framebuffer gl tex s)) = framebuffer_allocations s + 1"
  by (simp add: Igloo_framebuffer_def Framebuffer_constructor_def create_def Framebuffer_attach_def
      Framebuffer_bind_def emit_def framebuffer_allocations_def split: option.splits)

section \<open>Program: construction\<close>

lemma Program_makeShader_eq:
  "Program_makeShader gl ty src s =
     (if compileStatus gl ty src
      then (Inr (created s),
            s\<lparr>calls := calls s @ [CreateShader ty, ShaderSource (created s) src, CompileShader (created s),
                    GetShaderParameter (created s) (COMPILE_STATUS gl)],
              created := Suc (created s)\<rparr>)
      else (Inl (ShaderCompileError (shaderInfoLog gl ty src)),
            s\<lparr>calls := calls s @ [CreateShader ty, ShaderSource (created s) src, CompileShader (created s),
                    GetShaderParameter (created s) (COMPILE_STATUS gl), GetShaderInfoLog (created s)],
              created := Suc (created s)\<rparr>))"
  by (simp add: Program_makeShader_def create_def emit_def)

lemma Program_constructor_result:
  "fst (Program_constructor gl vertex fragment s) =
     (if \<not> compileStatus gl (VERTEX_SHADER gl) vertex
        then Inl (ShaderCompileError (shaderInfoLog gl (VERTEX_SHADER gl) vertex))
      else if \<not> compileStatus gl (FRAGMENT_SHADER gl) fragment
        then Inl (ShaderCompileError (shaderInfoLog gl (FRAGMENT_SHADER gl) fragment))
      else if \<not> linkStatus gl vertex fragment
        then Inl (ProgramLinkError (programInfoLog gl vertex fragment))
      else Inr \<lparr>vars = Map.empty, vars_prototype = Object_prototype, program = created s\<rparr>)"
  by (simp add: Program_constructor_def Program_makeShader_eq create_def emit_def)

lemma Program_constructor_calls:
  "calls (snd (Program_constructor gl vertex fragment s)) =
     calls s @
     [CreateProgram, CreateShader (VERTEX_SHADER gl), ShaderSource (Suc (created s)) vertex,
      CompileShader (Suc (created s)), GetShaderParameter (Suc (created s)) (COMPILE_STATUS gl)] @
     (if \<not> compileStatus gl (VERTEX_SHADER gl) vertex then [GetShaderInfoLog (Suc (created s))]
      else [AttachShader (created s) (Suc (created s)), CreateShader (FRAGMENT_SHADER gl),
            ShaderSource (Suc (Suc (created s))) fragment, CompileShader (Suc (Suc (created s))),
            GetShaderParameter (Suc (Suc (created s))) (COMPILE_STATUS gl)] @
           (if \<not> compileStatus gl (FRAGMENT_SHADER gl) fragment
            then [GetShaderInfoLog (Suc (Suc (created s)))]
            else [AttachShader (created s) (Suc (Suc (created s))), LinkProgram (created s),
                  GetProgramParameter (created s) (LINK_STATUS gl)] @
                 (if \<not> linkStatus gl vertex fragment then [GetProgramInfoLog (created s)] else [])))"
  by (simp add: Program_constructor_def Program_makeShader_eq create_def emit_def Let_def)

lemma Program_constructor_links:
  "link_calls (snd (Program_constructor gl vertex fragment s)) =
     link_calls s + (if compileStatus gl (VERTEX_SHADER gl) vertex \<and>
                        compileStatus gl (FRAGMENT_SHADER gl) fragment then 1 else 0)"
  by (simp add: link_calls_def Program_constructor_calls is_linkProgram_def)

text \<open>
  C5.  The constructor returns a Program only when both shaders compile and the
  program links.  When the vertex source does not compile, it throws with the
  compiler's info log as message, and \<^verbatim>\<open>linkProgram\<close> is not called (nor is anything
  after the query of that log); likewise for the fragment source.  When both compile
  and linking fails, it throws with the program's info log as message.  In each of
  these cases the result is the error, and no Program.
\<close>

theorem Program_constructor_failures:
  "fst (Program_constructor gl vertex fragment s) =
     (if \<not> compileStatus gl (VERTEX_SHADER gl) vertex
        then Inl (ShaderCompileError (shaderInfoLog gl (VERTEX_SHADER gl) vertex))
      else if \<not> compileStatus gl (FRAGMENT_SHADER gl) fragment
        then Inl (ShaderCompileError (shaderInfoLog gl (FRAGMENT_SHADER gl) fragment))
      else if \<not> linkStatus gl vertex fragment
        then Inl (ProgramLinkError (programInfoLog gl vertex fragment))
      else Inr \<lparr>vars = Map.empty, vars_prototype = Object_prototype, program = created s\<rparr>)
   \<and> link_calls (snd (Program_constructor gl vertex fragment s)) =
       link_calls s + (if compileStatus gl (VERTEX_SHADER gl) vertex \<and>
                          compileStatus gl (FRAGMENT_SHADER gl) fragment then 1 else 0)
   \<and> calls (snd (Program_constructor gl vertex fragment s)) =
     calls s @
     [CreateProgram, CreateShader (VERTEX_SHADER gl), ShaderSource (Suc (created s)) vertex,
      CompileShader (Suc (created s)), GetShaderParameter (Suc (created s)) (COMPILE_STATUS gl)] @
     (if \<not> compileStatus gl (VERTEX_SHADER gl) vertex then [GetShaderInfoLog (Suc (created s))]
      else [AttachShader (created s) (Suc (created s)), CreateShader (FRAGMENT_SHADER gl),
            ShaderSource (Suc (Suc (created s))) fragment, CompileShader (Suc (Suc (created s))),
            GetShaderParameter (Suc (Suc (created s))) (COMPILE_STATUS gl)] @
           (if \<not> compileStatus gl (FRAGMENT_SHADER gl) fragment
            then [GetShaderInfoLog (Suc (Suc (created s)))]
            else [AttachShader (created s) (Suc (Suc (created s))), LinkProgram (created s),
                  GetProgramParameter (created s) (LINK_STATUS gl)] @
                 (if \<not> linkStatus gl vertex fragment then [GetProgramInfoLog (created s)] else [])))"
  using Program_constructor_result[of gl vertex fragment s]
    Program_constructor_links[of gl vertex fragment s]
    Program_constructor_calls[of gl vertex fragment s]
  by (intro conjI)

text \<open>On the example context: a vertex source that does not compile, and a failed link.\<close>

lemma Program_constructor_examples:
  "Program_constructor webgl ''bad'' ''void main() {}'' start =
     (Inl (ShaderCompileError ''ERROR: 0:1: syntax error''),
      \<lparr>calls = [CreateProgram, CreateShader 0x8B31, ShaderSource 1 ''bad'', CompileShader 1,
                GetShaderParameter 1 0x8B81, GetShaderInfoLog 1],
        created = 2\<rparr>)"
  "fst (Program_constructor webgl ''void main() {}'' ''unlinkable'' start) =
     Inl (ProgramLinkError ''varyings do not match'')"
  by (simp_all add: Program_constructor_def Program_makeShader_eq create_def emit_def start_def
      webgl_consts webgl_answers)

section \<open>Program: the dispatch of uniform\<close>

lemma show_nat_digits:
  "show_nat 0 = ''0''" "show_nat 1 = ''1''" "show_nat (Suc 0) = ''1''" "show_nat 2 = ''2''"
  "show_nat 3 = ''3''" "show_nat 4 = ''4''" "show_nat 5 = ''5''" "show_nat 6 = ''6''"
  "show_nat 8 = ''8''"
  by (simp_all add: show_nat.simps)

text \<open>The regular expression of \<^verbatim>\<open>isArray\<close> accepts plain arrays and the nine typed arrays.\<close>

lemma isArray_cases:
  "isArray (NumberArray xs)" "isArray (BufferView (TypedArray k xs))"
  "\<not> isArray (BufferView (DataView n))" "\<not> isArray (Number r)" "\<not> isArray (Boolean b)"
  "\<not> isArray (String str)" "\<not> isArray PlainObject"
  by (cases k; simp add: isArray_def ends_with_def)+

text \<open>
  Reading and writing the cache.  A name that reads back \<^verbatim>\<open>null\<close> or
  \<^verbatim>\<open>undefined\<close> is not one the inherited setter answers for, so the assignment
  the methods make after the test \<^verbatim>\<open>== null\<close> always writes an own property.
\<close>

lemma setter_not_applied: "is_null (lookup this name) \<Longrightarrow> \<not> setter_applies this name"
proof
  assume null: "is_null (lookup this name)" and setter: "setter_applies this name"
  from setter have "name = ''__proto__''" "vars this name = None" "vars_prototype this \<noteq> Null_prototype"
    unfolding setter_applies_def by blast+
  then have "\<not> is_null (lookup this name)"
    by (cases "vars_prototype this") (simp_all add: lookup_def Object_prototype_names_def)
  with null show False by simp
qed

lemma assign_when_null:
  "is_null (lookup this name) \<Longrightarrow>
     assign_uniform name a this =
       this\<lparr>vars := (vars this)(name \<mapsto> (case a of None \<Rightarrow> Null | Some l \<Rightarrow> UniformLocation l))\<rparr>"
  "is_null (lookup this name) \<Longrightarrow>
     assign_attrib name k this = this\<lparr>vars := (vars this)(name \<mapsto> AttribIndex k)\<rparr>"
  by (simp_all add: assign_uniform_def assign_attrib_def setter_not_applied)

lemma lookup_update_same: "lookup (this\<lparr>vars := (vars this)(name \<mapsto> v)\<rparr>) name = v"
  by (simp add: lookup_def)

lemma lookup_update_other:
  "n \<noteq> name \<Longrightarrow> lookup (this\<lparr>vars := (vars this)(name \<mapsto> v)\<rparr>) n = lookup this n"
  by (simp add: lookup_def split: option.splits prototype.splits)

lemma lookup_update:
  "lookup (this\<lparr>vars := (vars this)(name \<mapsto> v)\<rparr>) n = (if n = name then v else lookup this n)"
  by (simp add: lookup_update_same lookup_update_other)

text \<open>
  The cache of a new Program: every name reads back \<^verbatim>\<open>undefined\<close> but the
  members of \<^verbatim>\<open>Object.prototype\<close>, which read back as inherited.
\<close>

lemma lookup_new_Program:
  "is_null (lookup \<lparr>vars = Map.empty, vars_prototype = Object_prototype, program = h\<rparr> n) =
     (n \<notin> set Object_prototype_names)"
  by (simp add: lookup_def)

text \<open>
  The setter at work, in a \<^verbatim>\<open>uniform\<close> call without value for the name
  \<^verbatim>\<open>__proto__\<close> on a new Program: no own property is written, the answer becomes
  the prototype, and under the prototype \<^verbatim>\<open>null\<close> nothing is inherited any more.
\<close>

lemma Program_uniform_proto_example:
  "fst (snd (Program_uniform webgl ''__proto__'' None False new_program start)) =
     \<lparr>vars = Map.empty, vars_prototype = Null_prototype, program = 0\<rparr>"
  "lookup \<lparr>vars = Map.empty, vars_prototype = Null_prototype, program = 0\<rparr> ''constructor'' = Undefined"
  by (simp_all add: Program_uniform.simps assign_uniform_def setter_applies_def new_program_def
      webgl_answers lookup_def)

lemma ensure_cached_eq:
  "(if is_null (lookup this name)
    then Program_uniform gl name None False this s
    else (Inr (), this, s)) = (Inr (), ensure_cached gl name this s)"
  by (simp add: ensure_cached_def Program_uniform.simps)

lemma ensure_cached_cases:
  "ensure_cached gl name this s =
     (if is_null (lookup this name)
      then (this\<lparr>vars := (vars this)(name \<mapsto>
               (case uniformLocation gl (program this) name of
                  None \<Rightarrow> Null | Some l \<Rightarrow> UniformLocation l))\<rparr>,
            emit (GetUniformLocation (program this) name) s)
      else (this, s))"
  by (simp add: ensure_cached_def Program_uniform.simps assign_when_null)

lemma Program_uniform_Some:
  "Program_uniform gl name (Some v) i this s =
     (let (this1, s1) = ensure_cached gl name this s; loc = lookup this1 name
      in if isArray v then
           (case gl_vector_method (''uniform'' @ length_text v @ (if i then ''i'' else ''f'') @ ''v'') of
              None \<Rightarrow> (Inl (TypeError (''uniform'' @ length_text v @ (if i then ''i'' else ''f'') @ ''v'')),
                       this1, s1)
            | Some entry \<Rightarrow> (Inr (), this1, emit (entry loc v) s1))
         else if typeof v = ''number'' \<or> typeof v = ''boolean'' then
           (if i then (Inr (), this1, emit (Uniform1i loc v) s1)
            else (Inr (), this1, emit (Uniform1f loc v) s1))
         else (Inl (InvalidUniformValue v), this1, s1))"
  unfolding Program_uniform.simps(2) ensure_cached_eq
  by (simp add: Let_def split: prod.splits)

lemma vector_method_supported:
  assumes "1 \<le> l" "l \<le> 4"
  shows "gl_vector_method (''uniform'' @ show_nat l @ (if i then ''i'' else ''f'') @ ''v'') = Some (vector_entry l i)"
proof -
  from assms have "l = 1 \<or> l = 2 \<or> l = 3 \<or> l = 4" by arith
  then show ?thesis
    by (auto simp: gl_vector_method_def vector_entry_def show_nat_digits)
qed

lemma Program_uniform_vector:
  assumes "isArray v" "value_length v = Some l" "1 \<le> l" "l \<le> 4"
    and "ensure_cached gl name this s = (this1, s1)"
  shows "Program_uniform gl name (Some v) i this s =
           (Inr (), this1, emit (vector_entry l i (lookup this1 name) v) s1)"
proof -
  have "length_text v = show_nat l"
    by (simp add: length_text_def assms(2))
  then have "gl_vector_method (''uniform'' @ length_text v @ (if i then ''i'' else ''f'') @ ''v'')
               = Some (vector_entry l i)"
    using vector_method_supported[OF assms(3,4), of i] by (simp only:)
  then show ?thesis
    unfolding Program_uniform_Some by (simp only: assms Let_def prod.case if_True option.case)
qed

lemma Program_uniform_scalar:
  assumes "v = Number r \<or> v = Boolean b"
    and "ensure_cached gl name this s = (this1, s1)"
  shows "Program_uniform gl name (Some v) i this s =
           (Inr (), this1, emit ((if i then Uniform1i else Uniform1f) (lookup this1 name) v) s1)"
  using assms by (auto simp: Program_uniform_Some isArray_cases)

lemma Program_uniform_other:
  assumes "shape_of v = Other"
    and "ensure_cached gl name this s = (this1, s1)"
  shows "Program_uniform gl name (Some v) i this s = (Inl (InvalidUniformValue v), this1, s1)"
  using assms by (cases v rule: shape_of.cases) (auto simp: Program_uniform_Some isArray_cases)

text \<open>
  Where the specification is silent: an array-like of a length other than 1 to 4.  The
  name built has no entry point behind it, and the call ends in a \<^verbatim>\<open>TypeError\<close>
  after the caching step, with no uniform entry point called.
\<close>

lemma show_nat_nonempty: "show_nat n \<noteq> []"
  by (subst show_nat.simps) simp

lemma show_nat_single:
  assumes "show_nat n = [c]"
  shows "n < 10 \<and> c = ''0123456789'' ! n"
proof (cases "n < 10")
  case True
  with assms show ?thesis by (subst (asm) show_nat.simps) simp
next
  case False
  with assms have "show_nat (n div 10) @ [''0123456789'' ! (n mod 10)] = [c]"
    by (subst (asm) show_nat.simps) simp
  then have "show_nat (n div 10) = []" by simp
  with show_nat_nonempty show ?thesis by blast
qed

lemma show_nat_supported:
  assumes "show_nat l \<in> {''1'', ''2'', ''3'', ''4''}"
  shows "1 \<le> l \<and> l \<le> 4"
proof -
  from assms obtain c where c: "show_nat l = [c]" "c \<in> {CHR ''1'', CHR ''2'', CHR ''3'', CHR ''4''}"
    by auto
  from show_nat_single[OF c(1)] have l: "l < 10" and d: "c = ''0123456789'' ! l" by simp_all
  from l have "l \<in> {0, 1, 2, 3, 4, 5, 6, 7, 8, 9}" by auto
  with d c(2) show ?thesis by auto
qed

lemma key_middle: "''uniform'' @ xs @ ys = ''uniform'' @ [c] @ ys \<longleftrightarrow> xs = [c]"
  by simp

lemma vector_method_unsupported:
  assumes "\<not> (1 \<le> l \<and> l \<le> 4)"
  shows "gl_vector_method (''uniform'' @ show_nat l @ (if i then ''i'' else ''f'') @ ''v'') = None"
proof -
  from assms show_nat_supported[of l]
  have no: "show_nat l \<noteq> ''1''" "show_nat l \<noteq> ''2''" "show_nat l \<noteq> ''3''" "show_nat l \<noteq> ''4''"
    by auto
  have f: "''uniform'' @ show_nat l @ ''fv'' \<noteq> ''uniform'' @ [c] @ ''fv''"
    if "show_nat l \<noteq> [c]" for c
    using that by (simp only: key_middle not_False_eq_True)
  have g: "''uniform'' @ show_nat l @ ''iv'' \<noteq> ''uniform'' @ [c] @ ''iv''"
    if "show_nat l \<noteq> [c]" for c
    using that by (simp only: key_middle not_False_eq_True)
  have fi: "''uniform'' @ show_nat l @ ''fv'' \<noteq> ''uniform'' @ [c] @ ''iv''" for c
  proof
    assume "''uniform'' @ show_nat l @ ''fv'' = ''uniform'' @ [c] @ ''iv''"
    then have "(show_nat l @ [CHR ''f'']) @ [CHR ''v''] = ([c] @ [CHR ''i'']) @ [CHR ''v'']" by simp
    then have "show_nat l @ [CHR ''f''] = [c] @ [CHR ''i'']" by (simp only: append_same_eq)
    then show False by simp
  qed
  have "if": "''uniform'' @ show_nat l @ ''iv'' \<noteq> ''uniform'' @ [c] @ ''fv''" for c
  proof
    assume "''uniform'' @ show_nat l @ ''iv'' = ''uniform'' @ [c] @ ''fv''"
    then have "(show_nat l @ [CHR ''i'']) @ [CHR ''v''] = ([c] @ [CHR ''f'']) @ [CHR ''v'']" by simp
    then have "show_nat l @ [CHR ''i''] = [c] @ [CHR ''f'']" by (simp only: append_same_eq)
    then show False by simp
  qed
  show ?thesis
  proof (cases i)
    case True
    with g[OF no(1)] g[OF no(2)] g[OF no(3)] g[OF no(4)]
      "if"[of "CHR ''1''"] "if"[of "CHR ''2''"] "if"[of "CHR ''3''"] "if"[of "CHR ''4''"]
    show ?thesis by (simp add: gl_vector_method_def)
  next
    case False
    with f[OF no(1)] f[OF no(2)] f[OF no(3)] f[OF no(4)]
      fi[of "CHR ''1''"] fi[of "CHR ''2''"] fi[of "CHR ''3''"] fi[of "CHR ''4''"]
    show ?thesis by (simp add: gl_vector_method_def)
  qed
qed

lemma Program_uniform_unsupported_length:
  assumes "isArray v" "value_length v = Some l" "\<not> (1 \<le> l \<and> l \<le> 4)"
    and "ensure_cached gl name this s = (this1, s1)"
  shows "Program_uniform gl name (Some v) i this s =
           (Inl (TypeError (''uniform'' @ show_nat l @ (if i then ''i'' else ''f'') @ ''v'')), this1, s1)"
proof -
  have "length_text v = show_nat l"
    by (simp add: length_text_def assms(2))
  then have "gl_vector_method (''uniform'' @ length_text v @ (if i then ''i'' else ''f'') @ ''v'') = None"
      and "''uniform'' @ length_text v @ (if i then ''i'' else ''f'') @ ''v'' =
           ''uniform'' @ show_nat l @ (if i then ''i'' else ''f'') @ ''v''"
    using vector_method_unsupported[OF assms(3), of i] by (simp_all only:)
  then show ?thesis
    unfolding Program_uniform_Some by (simp only: assms Let_def prod.case if_True option.case)
qed

lemma Program_uniform_five_elements:
  "Program_uniform gl name (Some (NumberArray [a, b, c, d, e])) False this s =
     (Inl (TypeError ''uniform5fv''), ensure_cached gl name this s)"
proof -
  have "value_length (NumberArray [a, b, c, d, e]) = Some 5" by simp
  from Program_uniform_unsupported_length[OF isArray_cases(1) this, of gl name this s _ _ False]
  show ?thesis
    by (cases "ensure_cached gl name this s") (simp add: show_nat_digits)
qed

lemma gl_vector_method_entry:
  "gl_vector_method m = Some entry \<Longrightarrow>
     \<not> is_location_query n (entry loc v) \<and> is_uniform_entry (entry loc v)"
  by (auto simp: gl_vector_method_def is_location_query_def is_uniform_entry_def split: if_splits)

text \<open>
  Whatever the value: \<^verbatim>\<open>uniform\<close> with a value leaves the Program as the caching step
  left it, and either throws having called nothing more, or returns having called one
  uniform entry point more.
\<close>

lemma Program_uniform_Some_shape:
  assumes "ensure_cached gl name this s = (this1, s1)"
  shows "(\<exists>e. Program_uniform gl name (Some v) i this s = (Inl e, this1, s1)) \<or>
         (\<exists>c. \<not> is_location_query n c \<and> is_uniform_entry c \<and>
              Program_uniform gl name (Some v) i this s = (Inr (), this1, emit c s1))"
proof (cases "isArray v")
  case True
  let ?m = "''uniform'' @ length_text v @ (if i then ''i'' else ''f'') @ ''v''"
  show ?thesis
  proof (cases "gl_vector_method ?m")
    case None
    then have "Program_uniform gl name (Some v) i this s = (Inl (TypeError ?m), this1, s1)"
      unfolding Program_uniform_Some assms by (simp only: Let_def prod.case True if_True option.case)
    then show ?thesis by blast
  next
    case (Some entry)
    then have "Program_uniform gl name (Some v) i this s =
        (Inr (), this1, emit (entry (lookup this1 name) v) s1)"
      unfolding Program_uniform_Some assms by (simp only: Let_def prod.case True if_True option.case)
    with gl_vector_method_entry[OF Some, of n "lookup this1 name" v] show ?thesis by blast
  qed
next
  case False
  have scalar: "\<not> is_location_query n (Uniform1i l v)" "is_uniform_entry (Uniform1i l v)"
    "\<not> is_location_query n (Uniform1f l v)" "is_uniform_entry (Uniform1f l v)" for l
    by (simp_all add: is_location_query_def is_uniform_entry_def)
  show ?thesis
  proof (cases "typeof v = ''number'' \<or> typeof v = ''boolean''")
    case True
    then have "Program_uniform gl name (Some v) i this s =
        (Inr (), this1, emit ((if i then Uniform1i else Uniform1f) (lookup this1 name) v) s1)"
      unfolding Program_uniform_Some assms using False by (simp add: Let_def)
    with scalar show ?thesis by (cases i) (simp_all, blast+)
  next
    case notscalar: False
    then have "Program_uniform gl name (Some v) i this s = (Inl (InvalidUniformValue v), this1, s1)"
      unfolding Program_uniform_Some assms using False by (simp add: Let_def)
    then show ?thesis by blast
  qed
qed

lemma calls_emit: "calls (emit c s) = calls s @ [c]"
  by (simp add: emit_def)

lemma uniform_entries_emit:
  "uniform_entries (emit c s) = uniform_entries s @ (if is_uniform_entry c then [c] else [])"
  by (simp add: uniform_entries_def emit_def)

lemma uniform_entries_ensure_cached:
  "uniform_entries (snd (ensure_cached gl name this s)) = uniform_entries s"
  by (simp add: ensure_cached_cases uniform_entries_def emit_def is_uniform_entry_def)

lemma Program_uniform_entries:
  "uniform_entries (snd (snd (Program_uniform gl name (Some v) i this s))) =
     uniform_entries s @
     (case fst (Program_uniform gl name (Some v) i this s) of
        Inl e \<Rightarrow> []
      | Inr u \<Rightarrow> [last (calls (snd (snd (Program_uniform gl name (Some v) i this s))))])"
proof -
  obtain this1 s1 where e: "ensure_cached gl name this s = (this1, s1)"
    by (cases "ensure_cached gl name this s")
  have s1: "uniform_entries s1 = uniform_entries s"
    using uniform_entries_ensure_cached[of gl name this s] e by simp
  from Program_uniform_Some_shape[OF e, of v i name] show ?thesis
    by (auto simp: s1 uniform_entries_emit calls_emit)
qed

text \<open>
  C3.  Wherever the specification's dispatch is defined, \<^verbatim>\<open>uniform\<close> with a value does
  exactly that: after the caching step, an array-like of length 1 to 4 goes to
  \<^verbatim>\<open>uniform{L}fv\<close>, or \<^verbatim>\<open>uniform{L}iv\<close> for the integer variant; a number or boolean
  goes to \<^verbatim>\<open>uniform1f\<close>, or \<^verbatim>\<open>uniform1i\<close>; any value of neither kind raises
  \<open>InvalidUniformValue\<close> with that value.  The value is handed to the entry point
  as it is (turning a boolean into 0 or 1 is the context's doing).  When the call
  throws, no uniform entry point has been called; when it returns, exactly one has.
\<close>

theorem Program_uniform_dispatches_on_shape:
  assumes "uniform_as_specified gl name v i this s = Some res"
  shows "Program_uniform gl name (Some v) i this s = res
   \<and> uniform_entries (snd (snd res)) =
       uniform_entries s @
       (case fst res of Inl e \<Rightarrow> [] | Inr u \<Rightarrow> [last (calls (snd (snd res)))])"
proof -
  have eq: "Program_uniform gl name (Some v) i this s = res"
  proof (cases "ensure_cached gl name this s")
    case (Pair this1 s1)
    show ?thesis
    proof (cases "shape_of v")
      case (ArrayLike l)
      then have v: "isArray v" "value_length v = Some l"
        by (cases v rule: shape_of.cases; simp add: isArray_cases)+
      from assms ArrayLike Pair have l: "1 \<le> l" "l \<le> 4"
        and res: "res = (Inr (), this1, emit (vector_entry l i (lookup this1 name) v) s1)"
        by (auto simp: uniform_as_specified_def split: if_splits)
      show ?thesis unfolding res using v l Pair by (rule Program_uniform_vector)
    next
      case Scalar
      then obtain r b where v: "v = Number r \<or> v = Boolean b"
        by (cases v rule: shape_of.cases) auto
      from assms Scalar Pair
      have res: "res = (Inr (), this1, emit ((if i then Uniform1i else Uniform1f) (lookup this1 name) v) s1)"
        by (auto simp: uniform_as_specified_def)
      show ?thesis unfolding res using v Pair by (rule Program_uniform_scalar)
    next
      case Other
      from assms Other Pair have res: "res = (Inl (InvalidUniformValue v), this1, s1)"
        by (auto simp: uniform_as_specified_def)
      show ?thesis unfolding res using Other Pair by (rule Program_uniform_other)
    qed
  qed
  have "uniform_entries (snd (snd res)) =
       uniform_entries s @
       (case fst res of Inl e \<Rightarrow> [] | Inr u \<Rightarrow> [last (calls (snd (snd res)))])"
    using Program_uniform_entries[of gl name v i this s] unfolding eq .
  with eq show ?thesis by (rule conjI)
qed

lemma uniform_as_specified_examples:
  "uniform_as_specified webgl ''color'' (NumberArray [1, 0, 0, 1]) False new_program start =
     Some (Inr (), \<lparr>vars = [''color'' \<mapsto> UniformLocation 1], vars_prototype = Object_prototype, program = 0\<rparr>,
           \<lparr>calls = [GetUniformLocation 0 ''color'',
                     Uniform4fv (UniformLocation 1) (NumberArray [1, 0, 0, 1])], created = 0\<rparr>)"
  "uniform_as_specified webgl ''color'' PlainObject False new_program start =
     Some (Inl (InvalidUniformValue PlainObject), \<lparr>vars = [''color'' \<mapsto> UniformLocation 1], vars_prototype = Object_prototype, program = 0\<rparr>,
           \<lparr>calls = [GetUniformLocation 0 ''color''], created = 0\<rparr>)"
  by (simp_all add: uniform_as_specified_def ensure_cached_cases new_program_def start_def lookup_def
      Object_prototype_names_def webgl_answers emit_def vector_entry_def)

theorem uniform_vec4_and_object:
  "uniform_as_specified webgl ''color'' (NumberArray [1, 0, 0, 1]) False new_program start =
     Some (Inr (), \<lparr>vars = [''color'' \<mapsto> UniformLocation 1], vars_prototype = Object_prototype, program = 0\<rparr>,
           \<lparr>calls = [GetUniformLocation 0 ''color'',
                     Uniform4fv (UniformLocation 1) (NumberArray [1, 0, 0, 1])], created = 0\<rparr>)
   \<and> Program_uniform webgl ''color'' (Some (NumberArray [1, 0, 0, 1])) False new_program start =
     (Inr (), \<lparr>vars = [''color'' \<mapsto> UniformLocation 1], vars_prototype = Object_prototype, program = 0\<rparr>,
      \<lparr>calls = [GetUniformLocation 0 ''color'',
                Uniform4fv (UniformLocation 1) (NumberArray [1, 0, 0, 1])], created = 0\<rparr>)
   \<and> Program_uniform webgl ''color'' (Some PlainObject) False new_program start =
     (Inl (InvalidUniformValue PlainObject), \<lparr>vars = [''color'' \<mapsto> UniformLocation 1], vars_prototype = Object_prototype, program = 0\<rparr>,
      \<lparr>calls = [GetUniformLocation 0 ''color''], created = 0\<rparr>)"
  using uniform_as_specified_examples
    Program_uniform_dispatches_on_shape[OF uniform_as_specified_examples(1)]
    Program_uniform_dispatches_on_shape[OF uniform_as_specified_examples(2)]
  by blast

section \<open>Program: the dispatch of matrix\<close>

lemma Math_sqrt_square: "Math_sqrt (k * k) = Some k"
proof -
  have kk: "k \<le> k * k" by (cases k) auto
  have nth: "[0..<Suc (k * k)] ! j = j" if "j \<le> k" for j
  proof -
    from that kk have "0 + j < Suc (k * k)" by linarith
    then have "[0..<Suc (k * k)] ! j = 0 + j" by (rule nth_upt)
    then show ?thesis by simp
  qed
  have "find (\<lambda>j. j * j = k * k) [0..<Suc (k * k)] = Some k"
  proof (subst find_Some_iff, intro exI[of _ k] conjI)
    from kk have "k < Suc (k * k)" by linarith
    then show "k < length [0..<Suc (k * k)]" by (simp only: length_upt diff_zero)
    show "[0..<Suc (k * k)] ! k * [0..<Suc (k * k)] ! k = k * k"
      by (simp only: nth[OF order_refl])
    show "k = [0..<Suc (k * k)] ! k"
      by (simp only: nth[OF order_refl])
    show "\<forall>j<k. \<not> [0..<Suc (k * k)] ! j * [0..<Suc (k * k)] ! j = k * k"
    proof (intro allI impI)
      fix j assume "j < k"
      then have "[0..<Suc (k * k)] ! j = j" using nth[of j] by simp
      moreover have "j * j < k * k" using \<open>j < k\<close> by (simp add: mult_strict_mono)
      ultimately show "\<not> [0..<Suc (k * k)] ! j * [0..<Suc (k * k)] ! j = k * k" by simp
    qed
  qed
  then show ?thesis by (simp only: Math_sqrt_def)
qed

lemma matrix_entry_square:
  "matrix_entry (Some (2 * 2)) = Some UniformMatrix2fv"
  "matrix_entry (Some (3 * 3)) = Some UniformMatrix3fv"
  "matrix_entry (Some (4 * 4)) = Some UniformMatrix4fv"
  "matrix_entry (Some (6 * 6)) = None"
  "matrix_entry (Some (8 * 8)) = None"
  "matrix_method_name (Some (6 * 6)) = Some ''uniformMatrix6fv''"
  "matrix_method_name (Some (8 * 8)) = Some ''uniformMatrix8fv''"
  unfolding matrix_entry_def matrix_method_name_def option.case Math_sqrt_square
  by (simp_all add: gl_matrix_method_def show_nat_digits)

lemma Program_matrix_eq:
  "Program_matrix gl name m t this s =
     (let (this1, s1) = ensure_cached gl name this s;
          len = (if matrix_isArrayBufferView m then matrix_byteLength m else matrix_length m)
      in case matrix_entry len of
           None \<Rightarrow> (Inl (TypeError (case matrix_method_name len of None \<Rightarrow> [] | Some n \<Rightarrow> n)), this1, s1)
         | Some entry \<Rightarrow> (Inr (), this1, emit (entry (lookup this1 name) t m) s1))"
  unfolding Program_matrix_def ensure_cached_eq by (simp add: Let_def split: prod.splits)

lemma Program_matrix_single_file_eq:
  "Program_matrix_single_file gl name m t this s =
     (let (this1, s1) = ensure_cached gl name this s
      in case matrix_entry (matrix_length m) of
           None \<Rightarrow> (Inl (TypeError (case matrix_method_name (matrix_length m) of None \<Rightarrow> [] | Some n \<Rightarrow> n)),
                    this1, s1)
         | Some entry \<Rightarrow> (Inr (), this1, emit (entry (lookup this1 name) t m) s1))"
  unfolding Program_matrix_single_file_def ensure_cached_eq by (simp add: Let_def split: prod.splits)

text \<open>
  The part of C4 that holds.  For a plain sequence the element count is its length:
  sixteen elements go to \<^verbatim>\<open>uniformMatrix4fv\<close>, nine to \<^verbatim>\<open>uniformMatrix3fv\<close>, four to
  \<^verbatim>\<open>uniformMatrix2fv\<close>.
\<close>

lemma Program_matrix_plain_sequence:
  "length xs = 16 \<Longrightarrow> Program_matrix gl name (MatrixArray xs) t this s =
     (Inr (), fst (ensure_cached gl name this s),
      emit (UniformMatrix4fv (lookup (fst (ensure_cached gl name this s)) name) t (MatrixArray xs))
        (snd (ensure_cached gl name this s)))"
  "length xs = 9 \<Longrightarrow> Program_matrix gl name (MatrixArray xs) t this s =
     (Inr (), fst (ensure_cached gl name this s),
      emit (UniformMatrix3fv (lookup (fst (ensure_cached gl name this s)) name) t (MatrixArray xs))
        (snd (ensure_cached gl name this s)))"
  "length xs = 4 \<Longrightarrow> Program_matrix gl name (MatrixArray xs) t this s =
     (Inr (), fst (ensure_cached gl name this s),
      emit (UniformMatrix2fv (lookup (fst (ensure_cached gl name this s)) name) t (MatrixArray xs))
        (snd (ensure_cached gl name this s)))"
  using matrix_entry_square(1,2,3)
  by (simp_all add: Program_matrix_eq split: prod.splits)

text \<open>
  The part of C4 that fails.  For a buffer view the count taken is the byte length,
  undivided: a \<^verbatim>\<open>Float32Array\<close> of \<open>k * k\<close> elements has \<open>2k * 2k\<close> bytes, so
  the name built is that of the \<open>2k\<close> by \<open>2k\<close> entry point.
\<close>

lemma Program_matrix_Float32Array:
  "length xs = k * k \<Longrightarrow>
   Program_matrix gl name (MatrixView (TypedArray Float32Array xs)) t this s =
     (let (this1, s1) = ensure_cached gl name this s
      in case gl_matrix_method (''uniformMatrix'' @ show_nat (2 * k) @ ''fv'') of
           None \<Rightarrow> (Inl (TypeError (''uniformMatrix'' @ show_nat (2 * k) @ ''fv'')), this1, s1)
         | Some entry \<Rightarrow>
             (Inr (), this1,
              emit (entry (lookup this1 name) t (MatrixView (TypedArray Float32Array xs))) s1))"
proof -
  assume len: "length xs = k * k"
  have "4 * (k * k) = (2 * k) * (2 * k)" by simp
  then have root: "Math_sqrt (4 * (k * k)) = Some (2 * k)"
    using Math_sqrt_square[of "2 * k"] by (simp only:)
  show ?thesis
    unfolding Program_matrix_eq
    by (simp add: len matrix_entry_def matrix_method_name_def root split: prod.splits option.splits)
qed

lemma ensure_cached_mvp:
  "ensure_cached webgl ''mvp'' new_program start =
     (\<lparr>vars = [''mvp'' \<mapsto> UniformLocation 2], vars_prototype = Object_prototype, program = 0\<rparr>,
      \<lparr>calls = [GetUniformLocation 0 ''mvp''], created = 0\<rparr>)"
  by (simp add: ensure_cached_cases new_program_def start_def lookup_def Object_prototype_names_def
      webgl_answers emit_def)

text \<open>
  C4 at a 4 by 4 matrix given as a \<^verbatim>\<open>Float32Array\<close> of sixteen elements (64 bytes,
  so 16 by the claim's count).  The method of the current sources looks up
  \<^verbatim>\<open>uniformMatrix8fv\<close>, which no context has, and the call ends in a
  \<^verbatim>\<open>TypeError\<close> with no matrix entry point called.  The single-file copy of the
  method, which counts elements, calls \<^verbatim>\<open>uniformMatrix4fv\<close>; so does the current
  method for the same matrix as a plain sequence.
\<close>

theorem Program_matrix_Float32Array_16:
  "view_byteLength (TypedArray Float32Array identity4) div 4 = 16
   \<and> Program_matrix webgl ''mvp'' (MatrixView (TypedArray Float32Array identity4)) False new_program start =
     (Inl (TypeError ''uniformMatrix8fv''),
      \<lparr>vars = [''mvp'' \<mapsto> UniformLocation 2], vars_prototype = Object_prototype, program = 0\<rparr>,
      \<lparr>calls = [GetUniformLocation 0 ''mvp''], created = 0\<rparr>)
   \<and> Program_matrix_single_file webgl ''mvp'' (MatrixView (TypedArray Float32Array identity4)) False new_program start =
     (Inr (),
      \<lparr>vars = [''mvp'' \<mapsto> UniformLocation 2], vars_prototype = Object_prototype, program = 0\<rparr>,
      \<lparr>calls = [GetUniformLocation 0 ''mvp'',
                UniformMatrix4fv (UniformLocation 2) False (MatrixView (TypedArray Float32Array identity4))],
        created = 0\<rparr>)
   \<and> Program_matrix webgl ''mvp'' (MatrixArray identity4) False new_program start =
     (Inr (),
      \<lparr>vars = [''mvp'' \<mapsto> UniformLocation 2], vars_prototype = Object_prototype, program = 0\<rparr>,
      \<lparr>calls = [GetUniformLocation 0 ''mvp'',
                UniformMatrix4fv (UniformLocation 2) False (MatrixArray identity4)],
        created = 0\<rparr>)"
proof -
  have len: "length identity4 = 4 * 4" by (simp add: identity4_def)
  have bytes: "view_byteLength (TypedArray Float32Array identity4) = 8 * 8"
    by (simp add: identity4_def)
  have a: "view_byteLength (TypedArray Float32Array identity4) div 4 = 16"
    by (simp add: identity4_def)
  have b: "Program_matrix webgl ''mvp'' (MatrixView (TypedArray Float32Array identity4)) False new_program start =
     (Inl (TypeError ''uniformMatrix8fv''),
      \<lparr>vars = [''mvp'' \<mapsto> UniformLocation 2], vars_prototype = Object_prototype, program = 0\<rparr>,
      \<lparr>calls = [GetUniformLocation 0 ''mvp''], created = 0\<rparr>)"
    unfolding Program_matrix_eq ensure_cached_mvp
    by (simp only: Let_def prod.case matrix_isArrayBufferView.simps if_True matrix_byteLength.simps
        bytes matrix_entry_square option.case)
  have c: "Program_matrix_single_file webgl ''mvp'' (MatrixView (TypedArray Float32Array identity4)) False new_program start =
     (Inr (),
      \<lparr>vars = [''mvp'' \<mapsto> UniformLocation 2], vars_prototype = Object_prototype, program = 0\<rparr>,
      \<lparr>calls = [GetUniformLocation 0 ''mvp'',
                UniformMatrix4fv (UniformLocation 2) False (MatrixView (TypedArray Float32Array identity4))],
        created = 0\<rparr>)"
    unfolding Program_matrix_single_file_eq ensure_cached_mvp
    by (simp only: Let_def prod.case matrix_length.simps len matrix_entry_square option.case)
       (simp add: emit_def lookup_def)
  have d: "Program_matrix webgl ''mvp'' (MatrixArray identity4) False new_program start =
     (Inr (),
      \<lparr>vars = [''mvp'' \<mapsto> UniformLocation 2], vars_prototype = Object_prototype, program = 0\<rparr>,
      \<lparr>calls = [GetUniformLocation 0 ''mvp'',
                UniformMatrix4fv (UniformLocation 2) False (MatrixArray identity4)],
        created = 0\<rparr>)"
    unfolding Program_matrix_eq ensure_cached_mvp
    by (simp only: Let_def prod.case matrix_isArrayBufferView.simps if_False matrix_length.simps len
        matrix_entry_square option.case)
       (simp add: emit_def lookup_def)
  from a b c d show ?thesis by blast
qed

section \<open>Program: the location cache\<close>

lemma location_queries_emit:
  "location_queries n (emit c s) = location_queries n s + (if is_location_query n c then 1 else 0)"
  by (simp add: location_queries_def emit_def)

lemma Program_uniform_Some_effect:
  "fst (snd (Program_uniform gl name (Some v) i this s)) = fst (ensure_cached gl name this s)"
  "location_queries n (snd (snd (Program_uniform gl name (Some v) i this s))) =
     location_queries n (snd (ensure_cached gl name this s))"
proof -
  obtain this1 s1 where e: "ensure_cached gl name this s = (this1, s1)"
    by (cases "ensure_cached gl name this s")
  from Program_uniform_Some_shape[OF e, of v i n]
  show "fst (snd (Program_uniform gl name (Some v) i this s)) = fst (ensure_cached gl name this s)"
    and "location_queries n (snd (snd (Program_uniform gl name (Some v) i this s))) =
     location_queries n (snd (ensure_cached gl name this s))"
    by (auto simp: e location_queries_emit)
qed

lemma Program_attrib_Some:
  "Program_attrib gl name (Some buf) sz stride this s =
     (let (this1, s1) =
            (if is_null (lookup this name)
             then (this\<lparr>vars := (vars this)(name \<mapsto> AttribIndex (attribLocation gl (program this) name))\<rparr>,
                   emit (GetAttribLocation (program this) name) s)
             else (this, s))
      in (this1,
          s1\<lparr>calls := calls s1 @
             [BindBuffer (target buf) (buffer buf),
              EnableVertexAttribArray (lookup this1 name),
              VertexAttribPointer (lookup this1 name) sz (FLOAT gl) False
                (case stride of None \<Rightarrow> 0 | Some k \<Rightarrow> k) 0]\<rparr>))"
  by (simp add: Program_attrib.simps assign_when_null Buffer_bind_def emit_def Let_def)

lemma ensure_cached_queries:
  "location_queries n (snd (ensure_cached gl name this s)) =
     location_queries n s + (if name = n \<and> is_null (lookup this name) then 1 else 0)"
  by (simp add: ensure_cached_cases location_queries_emit is_location_query_def)

lemma Program_attrib_Some_queries:
  "location_queries n (snd (Program_attrib gl name (Some buf) sz stride this s)) =
     location_queries n s + (if name = n \<and> is_null (lookup this name) then 1 else 0)"
  by (simp add: Program_attrib_Some Let_def location_queries_def emit_def is_location_query_def)

text \<open>What one call does to the cache entry and to the query count of a name.\<close>

lemma run_call_program: "program (fst (run_call gl c p s)) = program p"
  by (cases c)
    (auto simp: Program_uniform_Some_effect ensure_cached_cases Program_attrib_Some Let_def)

lemma run_call_queries:
  "location_queries n (snd (run_call gl c p s)) =
     location_queries n s + (if call_name c = n \<and> is_null (lookup p n) then 1 else 0)"
  by (cases c)
    (auto simp: Program_uniform_Some_effect ensure_cached_queries Program_attrib_Some_queries)







text \<open>
  A uniform name for which the context answers \<^verbatim>\<open>null\<close> never counts as cached:
  every \<^verbatim>\<open>uniform\<close> call with it queries the context.
\<close>

lemma run_call_null_stays:
  "uniformLocation gl (program p) n = None \<Longrightarrow> is_null (lookup p n) \<Longrightarrow>
     is_null (lookup (fst (run_call gl (Uniform m v i) p s)) n)"
  by (auto simp: Program_uniform_Some_effect ensure_cached_cases lookup_update split: if_splits)

lemma run_calls_null_location:
  "uniformLocation gl (program p) n = None \<Longrightarrow> is_null (lookup p n) \<Longrightarrow>
   \<forall>c\<in>set cs. \<exists>v i. c = Uniform n v i \<Longrightarrow>
     location_queries n (snd (run_calls gl cs p s)) = location_queries n s + length cs"
proof (induction cs arbitrary: p s)
  case Nil
  then show ?case by simp
next
  case (Cons c cs)
  from Cons.prems(3) obtain v i where c: "c = Uniform n v i" by auto
  obtain p1 s1 where step: "run_call gl c p s = (p1, s1)" by (cases "run_call gl c p s")
  have prog: "program p1 = program p" using run_call_program[of gl c p s] step by simp
  have null: "is_null (lookup p1 n)"
    using run_call_null_stays[OF Cons.prems(1,2), of n v i s] step c by simp
  have q1: "location_queries n s1 = location_queries n s + 1"
    using run_call_queries[of n gl c p s] step c Cons.prems(2) by simp
  have "location_queries n (snd (run_calls gl cs p1 s1)) = location_queries n s1 + length cs"
    using Cons.prems prog null by (intro Cons.IH) simp_all
  then show ?case using step q1 by simp
qed




end
